theory Spec2Isabelle
  imports Complex_Main
begin

section \<open>Values, errors and the truthiness test\<close>

text \<open>
  The client is JavaScript. Identifiers are strings that may be absent (\<open>null\<close> or
  \<open>undefined\<close>): \<open>string option\<close>. The source tests them with \<open>!x\<close> and \<open>x || d\<close>, under
  which the absent value and the empty string are both falsy.
\<close>

definition truthy :: "string option \<Rightarrow> bool" where
  "truthy v = (case v of None \<Rightarrow> False | Some x \<Rightarrow> x \<noteq> [])"

text \<open>The string inside an identifier that has been tested truthy.\<close>

definition idString :: "string option \<Rightarrow> string" where
  "idString v = (case v of None \<Rightarrow> [] | Some x \<Rightarrow> x)"

text \<open>
  A JavaScript number is a finite value, one of the two infinities, or \<open>NaN\<close>; all of them
  have \<open>typeof x === 'number'\<close>. The source compares numbers with constants only:
  \<open>x < r\<close> and \<open>x > r\<close>, both false when \<open>x\<close> is \<open>NaN\<close>.
\<close>

datatype js_number = Finite real | PosInfinity | NegInfinity | NaN

fun js_lt :: "js_number \<Rightarrow> real \<Rightarrow> bool" where
  "js_lt (Finite x) r = (x < r)"
| "js_lt PosInfinity r = False"
| "js_lt NegInfinity r = True"
| "js_lt NaN r = False"

fun js_gt :: "js_number \<Rightarrow> real \<Rightarrow> bool" where
  "js_gt (Finite x) r = (x > r)"
| "js_gt PosInfinity r = True"
| "js_gt NegInfinity r = False"
| "js_gt NaN r = False"

text \<open>
  Numeric options (\<open>score\<close>, \<open>page\<close>, \<open>limit\<close>, \<open>minScore\<close>, \<open>maxScore\<close>) are tested with
  \<open>typeof x !== 'number'\<close>, so they are dynamically typed values.
\<close>

datatype js_value = JUndefined | JNull | JNumber js_number | JString string | JBool bool

text \<open>
  The four error classes of \<open>laika-test-client.js\<close>. \<open>LaikaServiceError\<close> carries its
  message and status code (absent when the client raises it itself); the others carry
  their message.
\<close>

datatype client_error =
    LaikaServiceError string "int option"
  | NetworkError string
  | ValidationError string
  | AssignmentNotFoundError string

text \<open>The two messages of the source that contain double quotes.\<close>

definition outcomeMessage :: string where
  \<open>outcomeMessage = ''outcome must be "success" or "failure"''\<close>

definition feedbackMessage :: string where
  \<open>feedbackMessage = ''userFeedback must be "positive", "negative", or "neutral"''\<close>

section \<open>AssignmentCache\<close>

record Assignment =
  assignment_id :: string
  prompt_content :: string

record CacheEntry =
  assignment :: Assignment
  expiresAt :: int

text \<open>
  \<open>this.cache\<close> is a \<open>Map\<close> from key strings to entries, \<open>this.ttl\<close> a number of
  milliseconds. \<open>Date.now()\<close> is the parameter \<open>now\<close> of every operation that reads it.
\<close>

record AssignmentCache =
  cache :: "string \<rightharpoonup> CacheEntry"
  ttl :: int

definition newAssignmentCache :: "int \<Rightarrow> AssignmentCache" where
  "newAssignmentCache ttlMs = \<lparr>cache = Map.empty, ttl = ttlMs\<rparr>"

text \<open>\<open>userId || 'null'\<close>: the sentinel for a falsy identifier.\<close>

definition orNull :: "string option \<Rightarrow> string" where
  "orNull v = (case v of None \<Rightarrow> ''null'' | Some x \<Rightarrow> if x = [] then ''null'' else x)"

definition generateKey :: "string \<Rightarrow> string option \<Rightarrow> string option \<Rightarrow> string" where
  "generateKey experimentId userId sessionId =
     (let userKey = orNull userId;
          sessionKey = orNull sessionId
      in experimentId @ '':'' @ userKey @ '':'' @ sessionKey)"

definition store ::
  "AssignmentCache \<Rightarrow> int \<Rightarrow> string \<Rightarrow> string option \<Rightarrow> string option \<Rightarrow> Assignment
   \<Rightarrow> AssignmentCache" where
  "store c now experimentId userId sessionId a =
     (let key = generateKey experimentId userId sessionId;
          expires = now + ttl c
      in c\<lparr>cache := (cache c)(key \<mapsto> \<lparr>assignment = a, expiresAt = expires\<rparr>)\<rparr>)"

text \<open>
  \<open>get\<close> returns the assignment or \<open>null\<close> (\<open>None\<close>) together with the cache, from which
  an expired entry has been deleted.
\<close>

definition get ::
  "AssignmentCache \<Rightarrow> int \<Rightarrow> string \<Rightarrow> string option \<Rightarrow> string option
   \<Rightarrow> Assignment option \<times> AssignmentCache" where
  "get c now experimentId userId sessionId =
     (let key = generateKey experimentId userId sessionId
      in case cache c key of
           None \<Rightarrow> (None, c)
         | Some entry \<Rightarrow>
             if now > expiresAt entry
             then (None, c\<lparr>cache := (cache c)(key := None)\<rparr>)
             else (Some (assignment entry), c))"

definition clear :: "AssignmentCache \<Rightarrow> AssignmentCache" where
  "clear c = c\<lparr>cache := Map.empty\<rparr>"

definition cleanup :: "AssignmentCache \<Rightarrow> int \<Rightarrow> AssignmentCache" where
  "cleanup c now =
     c\<lparr>cache := (\<lambda>key. case cache c key of
                           None \<Rightarrow> None
                         | Some entry \<Rightarrow> if now > expiresAt entry then None else Some entry)\<rparr>"

section \<open>Requests, responses and the transport\<close>

record promptRequest =
  split_type :: string
  user_id :: "string option"
  session_id :: "string option"

record eventData =
  ev_assignment_id :: string
  ev_outcome :: string
  ev_score :: "js_number option"
  ev_user_feedback :: "string option"

datatype request_body = PromptBody promptRequest | EventBody eventData

text \<open>
  One call of \<open>_makeRequest(method, path, data)\<close>. The events query is built with
  \<open>URLSearchParams\<close>, whose serialisation belongs to the runtime: the request carries the
  appended parameters in order, before encoding.
\<close>

record request =
  req_method :: string
  req_path :: string
  req_query :: "(string \<times> js_value) list"
  req_data :: "request_body option"

record response_meta =
  meta_total :: js_value
  meta_page :: js_value
  meta_limit :: js_value

text \<open>
  The parsed JSON body \<open>{ success, data, meta, error }\<close>; a missing field is \<open>False\<close> or
  \<open>None\<close>. The type of \<open>data\<close> depends on the endpoint.
\<close>

record 'd envelope =
  success :: bool
  data :: "'d option"
  meta :: "response_meta option"
  error :: "string option"

text \<open>
  What the HTTP exchange inside \<open>_makeRequest\<close> can end with: the \<open>error\<close> event, the
  \<open>timeout\<close> event, a body that \<open>JSON.parse\<close> rejects, or a status code with a parsed body.
\<close>

datatype 'd transport =
    RequestFailed
  | RequestTimeout
  | InvalidJson
  | Parsed nat "'d envelope"

record EventResponse =
  event_id :: string
  event_message :: "string option"

record Event =
  evt_id :: string
  evt_outcome :: string
  evt_score :: "js_number option"

text \<open>
  The client: its cache, and the trace of the requests it has handed to the transport
  (what the mock server of \<open>test.js\<close> records).
\<close>

record LaikaTestClient =
  assignmentCache :: AssignmentCache
  sent :: "request list"

fun decimal :: "nat \<Rightarrow> string" where
  "decimal n = (if n < 10 then [''0123456789'' ! n]
                else decimal (n div 10) @ [''0123456789'' ! (n mod 10)])"

declare decimal.simps [simp del]

definition makeRequest ::
  "(request \<Rightarrow> 'd transport) \<Rightarrow> request \<Rightarrow> LaikaTestClient
   \<Rightarrow> (client_error + 'd envelope) \<times> LaikaTestClient" where
  "makeRequest net req c =
     (let c' = c\<lparr>sent := sent c @ [req]\<rparr>
      in case net req of
           RequestFailed \<Rightarrow> (Inl (NetworkError ''Network request failed''), c')
         | RequestTimeout \<Rightarrow> (Inl (NetworkError ''Request timeout''), c')
         | InvalidJson \<Rightarrow> (Inl (NetworkError ''Invalid JSON response''), c')
         | Parsed statusCode parsed \<Rightarrow>
             if statusCode \<ge> 200 \<and> statusCode < 300
             then (Inr parsed, c')
             else (Inl (LaikaServiceError
                          (if truthy (error parsed) then idString (error parsed)
                           else ''HTTP '' @ decimal statusCode)
                          (Some (int statusCode))), c'))"

text \<open>
  The \<open>catch\<close> block shared by the five operations: a service or network error is thrown
  again, anything else is wrapped.
\<close>

definition rethrow :: "string \<Rightarrow> client_error \<Rightarrow> client_error" where
  "rethrow msg e =
     (case e of
        LaikaServiceError m st \<Rightarrow> e
      | NetworkError m \<Rightarrow> e
      | _ \<Rightarrow> LaikaServiceError msg None)"

text \<open>
  The constructor: the API key is required, and \<open>options.cacheTtl || 30 * 60 * 1000\<close>
  replaces a missing or zero time-to-live by thirty minutes. The cleanup timer is not part
  of the model; \<open>cleanup\<close> above is what it runs.
\<close>

definition newLaikaTestClient :: "string \<Rightarrow> int option \<Rightarrow> client_error + LaikaTestClient" where
  "newLaikaTestClient apiKey cacheTtl =
     (if apiKey = [] then Inl (ValidationError ''API key is required'')
      else Inr \<lparr>assignmentCache =
                  newAssignmentCache
                    (case cacheTtl of
                       None \<Rightarrow> 30 * 60 * 1000
                     | Some t \<Rightarrow> if t = 0 then 30 * 60 * 1000 else t),
                sent = []\<rparr>)"

definition clearCache :: "LaikaTestClient \<Rightarrow> LaikaTestClient" where
  "clearCache c = c\<lparr>assignmentCache := clear (assignmentCache c)\<rparr>"

definition destroy :: "LaikaTestClient \<Rightarrow> LaikaTestClient" where
  "destroy c = clearCache c"

section \<open>Fetching a prompt\<close>

definition promptPath :: "string \<Rightarrow> string" where
  "promptPath experimentId = ''/api/v1/experiments/'' @ experimentId @ ''/prompt''"

definition promptPost :: "string \<Rightarrow> promptRequest \<Rightarrow> request" where
  "promptPost experimentId requestData =
     \<lparr>req_method = ''POST'', req_path = promptPath experimentId, req_query = [],
      req_data = Some (PromptBody requestData)\<rparr>"

text \<open>
  A missing argument and the empty string are both falsy: the arguments are strings, and
  \<open>!experimentId\<close> is \<open>experimentId = []\<close>. \<open>now\<close> is the clock at the call, \<open>later\<close> the
  clock when the response has arrived.
\<close>

definition getPromptForUser ::
  "(request \<Rightarrow> Assignment transport) \<Rightarrow> int \<Rightarrow> int \<Rightarrow> string \<Rightarrow> string \<Rightarrow> LaikaTestClient
   \<Rightarrow> (client_error + Assignment) \<times> LaikaTestClient" where
  "getPromptForUser net now later experimentId userId c =
     (if experimentId = [] then (Inl (ValidationError ''experimentId is required''), c)
      else if userId = [] then (Inl (ValidationError ''userId is required''), c)
      else case get (assignmentCache c) now experimentId (Some userId) None of
             (Some cached, ac) \<Rightarrow> (Inr cached, c\<lparr>assignmentCache := ac\<rparr>)
           | (None, ac) \<Rightarrow>
               (let requestData = \<lparr>split_type = ''user'', user_id = Some userId, session_id = None\<rparr>
                in case makeRequest net (promptPost experimentId requestData)
                          (c\<lparr>assignmentCache := ac\<rparr>) of
                     (Inl e, c1) \<Rightarrow> (Inl (rethrow ''Failed to get prompt assignment'' e), c1)
                   | (Inr response, c1) \<Rightarrow>
                       (case data response of
                          None \<Rightarrow> (Inl (LaikaServiceError ''Invalid response format'' None), c1)
                        | Some d \<Rightarrow>
                            if \<not> success response
                            then (Inl (LaikaServiceError ''Invalid response format'' None), c1)
                            else (Inr d, c1\<lparr>assignmentCache :=
                                    store (assignmentCache c1) later experimentId (Some userId) None d\<rparr>))))"

definition getPromptForSession ::
  "(request \<Rightarrow> Assignment transport) \<Rightarrow> int \<Rightarrow> int \<Rightarrow> string \<Rightarrow> string \<Rightarrow> LaikaTestClient
   \<Rightarrow> (client_error + Assignment) \<times> LaikaTestClient" where
  "getPromptForSession net now later experimentId sessionId c =
     (if experimentId = [] then (Inl (ValidationError ''experimentId is required''), c)
      else if sessionId = [] then (Inl (ValidationError ''sessionId is required''), c)
      else case get (assignmentCache c) now experimentId None (Some sessionId) of
             (Some cached, ac) \<Rightarrow> (Inr cached, c\<lparr>assignmentCache := ac\<rparr>)
           | (None, ac) \<Rightarrow>
               (let requestData = \<lparr>split_type = ''session'', user_id = None,
                                   session_id = Some sessionId\<rparr>
                in case makeRequest net (promptPost experimentId requestData)
                          (c\<lparr>assignmentCache := ac\<rparr>) of
                     (Inl e, c1) \<Rightarrow> (Inl (rethrow ''Failed to get prompt assignment'' e), c1)
                   | (Inr response, c1) \<Rightarrow>
                       (case data response of
                          None \<Rightarrow> (Inl (LaikaServiceError ''Invalid response format'' None), c1)
                        | Some d \<Rightarrow>
                            if \<not> success response
                            then (Inl (LaikaServiceError ''Invalid response format'' None), c1)
                            else (Inr d, c1\<lparr>assignmentCache :=
                                    store (assignmentCache c1) later experimentId None (Some sessionId) d\<rparr>))))"

definition getRandomPrompt ::
  "(request \<Rightarrow> Assignment transport) \<Rightarrow> string \<Rightarrow> LaikaTestClient
   \<Rightarrow> (client_error + Assignment) \<times> LaikaTestClient" where
  "getRandomPrompt net experimentId c =
     (if experimentId = [] then (Inl (ValidationError ''experimentId is required''), c)
      else
        let requestData = \<lparr>split_type = ''random'', user_id = None, session_id = None\<rparr>
        in case makeRequest net (promptPost experimentId requestData) c of
             (Inl e, c1) \<Rightarrow> (Inl (rethrow ''Failed to get prompt assignment'' e), c1)
           | (Inr response, c1) \<Rightarrow>
               (case data response of
                  None \<Rightarrow> (Inl (LaikaServiceError ''Invalid response format'' None), c1)
                | Some d \<Rightarrow>
                    if \<not> success response
                    then (Inl (LaikaServiceError ''Invalid response format'' None), c1)
                    else (Inr d, c1)))"

section \<open>Tracking an outcome\<close>

text \<open>
  \<open>_findCachedAssignment\<close> probes the cache up to three times; each probe may delete an
  expired entry, so the cache is threaded through. A cached assignment is an object and
  so always truthy: \<open>if (assignment)\<close> is the test for \<open>Some\<close>.
\<close>

definition findCachedAssignment ::
  "AssignmentCache \<Rightarrow> int \<Rightarrow> string \<Rightarrow> string option \<Rightarrow> string option
   \<Rightarrow> Assignment option \<times> AssignmentCache" where
  "findCachedAssignment c now experimentId userId sessionId =
     (case get c now experimentId userId sessionId of
        (Some a, c1) \<Rightarrow> (Some a, c1)
      | (None, c1) \<Rightarrow>
          (case (if truthy userId then get c1 now experimentId userId None else (None, c1)) of
             (Some a, c2) \<Rightarrow> (Some a, c2)
           | (None, c2) \<Rightarrow>
               (case (if truthy sessionId then get c2 now experimentId None sessionId
                      else (None, c2)) of
                  (Some a, c3) \<Rightarrow> (Some a, c3)
                | (None, c3) \<Rightarrow> (None, c3))))"

record TrackingOptions =
  opt_experimentId :: "string option"
  opt_userId :: "string option"
  opt_sessionId :: "string option"
  opt_score :: js_value
  opt_userFeedback :: "string option"
  opt_assignmentId :: "string option"

text \<open>The block \<open>if (score !== undefined) { ... }\<close>: the score to attach, or the error.\<close>

definition checkScore :: "js_value \<Rightarrow> client_error + js_number option" where
  "checkScore score =
     (case score of
        JUndefined \<Rightarrow> Inr None
      | JNumber x \<Rightarrow>
          if js_lt x 0 \<or> js_gt x 10
          then Inl (ValidationError ''score must be a number between 0 and 10'')
          else Inr (Some x)
      | _ \<Rightarrow> Inl (ValidationError ''score must be a number between 0 and 10''))"

text \<open>
  The block \<open>if (userFeedback !== undefined) { ... }\<close>; \<open>None\<close> is \<open>undefined\<close>, and a
  feedback that is not a string is not modelled (the source rejects it like any other
  value outside the three words).
\<close>

definition checkFeedback :: "string option \<Rightarrow> client_error + string option" where
  "checkFeedback userFeedback =
     (case userFeedback of
        None \<Rightarrow> Inr None
      | Some f \<Rightarrow>
          if f \<noteq> ''positive'' \<and> f \<noteq> ''negative'' \<and> f \<noteq> ''neutral''
          then Inl (ValidationError feedbackMessage)
          else Inr (Some f))"

definition eventPost :: "eventData \<Rightarrow> request" where
  "eventPost ed =
     \<lparr>req_method = ''POST'', req_path = ''/api/v1/events'', req_query = [],
      req_data = Some (EventBody ed)\<rparr>"

text \<open>
  The first half of \<open>trackOutcome\<close>, up to \<open>finalAssignmentId\<close>: the explicit identifier,
  or the one of the cached assignment, or the error thrown.
\<close>

definition resolveAssignmentId ::
  "int \<Rightarrow> TrackingOptions \<Rightarrow> LaikaTestClient \<Rightarrow> (client_error + string) \<times> LaikaTestClient" where
  "resolveAssignmentId now options c =
     (let experimentId = opt_experimentId options;
          userId = opt_userId options;
          sessionId = opt_sessionId options;
          assignmentId = opt_assignmentId options
      in if truthy assignmentId \<and> truthy experimentId
         then (Inr (idString assignmentId), c)
         else if truthy experimentId \<and> (truthy userId \<or> truthy sessionId)
         then (case findCachedAssignment (assignmentCache c) now (idString experimentId)
                      userId sessionId of
                 (None, ac) \<Rightarrow>
                   (Inl (AssignmentNotFoundError
                          (''No assignment found for experiment '' @ idString experimentId
                           @ ''. Call getPrompt* method first.'')),
                    c\<lparr>assignmentCache := ac\<rparr>)
               | (Some a, ac) \<Rightarrow> (Inr (assignment_id a), c\<lparr>assignmentCache := ac\<rparr>))
         else (Inl (ValidationError
                 ''Either (assignmentId + experimentId) or (experimentId + userId/sessionId) must be provided''),
               c))"

definition trackOutcome ::
  "(request \<Rightarrow> EventResponse transport) \<Rightarrow> int \<Rightarrow> string \<Rightarrow> TrackingOptions \<Rightarrow> LaikaTestClient
   \<Rightarrow> (client_error + EventResponse option) \<times> LaikaTestClient" where
  "trackOutcome net now outcome options c =
     (if outcome \<noteq> ''success'' \<and> outcome \<noteq> ''failure''
      then (Inl (ValidationError outcomeMessage), c)
      else case resolveAssignmentId now options c of
             (Inl e, c1) \<Rightarrow> (Inl e, c1)
           | (Inr finalAssignmentId, c1) \<Rightarrow>
               (case checkScore (opt_score options) of
                  Inl e \<Rightarrow> (Inl e, c1)
                | Inr sc \<Rightarrow>
                    (case checkFeedback (opt_userFeedback options) of
                       Inl e \<Rightarrow> (Inl e, c1)
                     | Inr fb \<Rightarrow>
                         (let ed = \<lparr>ev_assignment_id = finalAssignmentId, ev_outcome = outcome,
                                    ev_score = sc, ev_user_feedback = fb\<rparr>
                          in case makeRequest net (eventPost ed) c1 of
                               (Inl e, c2) \<Rightarrow> (Inl (rethrow ''Failed to track outcome'' e), c2)
                             | (Inr response, c2) \<Rightarrow>
                                 if \<not> success response
                                 then (Inl (LaikaServiceError ''Failed to track event'' None), c2)
                                 else (Inr (data response), c2)))))"

definition trackSuccess ::
  "(request \<Rightarrow> EventResponse transport) \<Rightarrow> int \<Rightarrow> TrackingOptions \<Rightarrow> LaikaTestClient
   \<Rightarrow> (client_error + EventResponse option) \<times> LaikaTestClient" where
  "trackSuccess net now options c = trackOutcome net now ''success'' options c"

definition trackFailure ::
  "(request \<Rightarrow> EventResponse transport) \<Rightarrow> int \<Rightarrow> TrackingOptions \<Rightarrow> LaikaTestClient
   \<Rightarrow> (client_error + EventResponse option) \<times> LaikaTestClient" where
  "trackFailure net now options c = trackOutcome net now ''failure'' options c"

text \<open>\<open>{ ...options, userFeedback: feedback }\<close> overwrites the field, also with \<open>undefined\<close>.\<close>

definition trackFeedback ::
  "(request \<Rightarrow> EventResponse transport) \<Rightarrow> int \<Rightarrow> string option \<Rightarrow> TrackingOptions
   \<Rightarrow> LaikaTestClient \<Rightarrow> (client_error + EventResponse option) \<times> LaikaTestClient" where
  "trackFeedback net now feedback options c =
     trackOutcome net now ''success'' (options\<lparr>opt_userFeedback := feedback\<rparr>) c"

section \<open>Reading the events of an experiment\<close>

record EventFilters =
  flt_startDate :: "string option"
  flt_endDate :: "string option"
  flt_userId :: "string option"
  flt_sessionId :: "string option"
  flt_minScore :: js_value
  flt_maxScore :: js_value
  flt_feedback :: "string option"
  flt_outcome :: "string option"
  flt_page :: js_value
  flt_limit :: js_value

record EventsResult =
  events :: "Event list"
  result_meta :: response_meta

text \<open>\<open>typeof v !== 'number' || P v\<close>.\<close>

definition notNumberOr :: "(js_number \<Rightarrow> bool) \<Rightarrow> js_value \<Rightarrow> bool" where
  "notNumberOr P v = (case v of JNumber x \<Rightarrow> P x | _ \<Rightarrow> True)"

text \<open>The destructuring default \<open>page = 1\<close>: it replaces \<open>undefined\<close> only.\<close>

definition orDefault :: "js_value \<Rightarrow> real \<Rightarrow> js_value" where
  "orDefault v d = (case v of JUndefined \<Rightarrow> JNumber (Finite d) | _ \<Rightarrow> v)"

text \<open>
  \<open>new Date(dateString)\<close> is the runtime's parser, the parameter \<open>parseDate\<close>: the
  timestamp in milliseconds, or \<open>None\<close> for an invalid date (\<open>getTime()\<close> is \<open>NaN\<close>).
\<close>

definition isValidISODate :: "(string \<Rightarrow> int option) \<Rightarrow> string \<Rightarrow> bool" where
  "isValidISODate parseDate dateString =
     (parseDate dateString \<noteq> None \<and>
      CHR ''T'' \<in> set dateString \<and>
      (CHR ''Z'' \<in> set dateString \<or> CHR ''+'' \<in> set dateString \<or> CHR ''-'' \<in> set dateString))"

text \<open>\<open>new Date(a) >= new Date(b)\<close>; a comparison with an invalid date is false.\<close>

definition dateGe :: "int option \<Rightarrow> int option \<Rightarrow> bool" where
  "dateGe a b = (case (a, b) of (Some x, Some y) \<Rightarrow> x \<ge> y | _ \<Rightarrow> False)"

definition queryParam :: "string \<Rightarrow> string option \<Rightarrow> (string \<times> js_value) list" where
  "queryParam name v = (if truthy v then [(name, JString (idString v))] else [])"

definition scoreParam :: "string \<Rightarrow> js_value \<Rightarrow> (string \<times> js_value) list" where
  "scoreParam name v = (if v \<noteq> JUndefined then [(name, v)] else [])"

definition eventsGet :: "string \<Rightarrow> EventFilters \<Rightarrow> js_value \<Rightarrow> js_value \<Rightarrow> request" where
  "eventsGet experimentId filters page limit =
     \<lparr>req_method = ''GET'',
      req_path = ''/api/v1/experiments/'' @ experimentId @ ''/events'',
      req_query =
        queryParam ''start_date'' (flt_startDate filters) @
        queryParam ''end_date'' (flt_endDate filters) @
        queryParam ''user_id'' (flt_userId filters) @
        queryParam ''session_id'' (flt_sessionId filters) @
        scoreParam ''min_score'' (flt_minScore filters) @
        scoreParam ''max_score'' (flt_maxScore filters) @
        queryParam ''feedback'' (flt_feedback filters) @
        queryParam ''outcome'' (flt_outcome filters) @
        [(''page'', page), (''limit'', limit)],
      req_data = None\<rparr>"

text \<open>The validation part of \<open>getExperimentEvents\<close>: the first error thrown, if any.\<close>

definition validateFilters ::
  "(string \<Rightarrow> int option) \<Rightarrow> string \<Rightarrow> EventFilters \<Rightarrow> client_error option" where
  "validateFilters parseDate experimentId filters =
     (let startDate = flt_startDate filters;
          endDate = flt_endDate filters;
          minScore = flt_minScore filters;
          maxScore = flt_maxScore filters;
          outcome = flt_outcome filters;
          page = orDefault (flt_page filters) 1;
          limit = orDefault (flt_limit filters) 50
      in if experimentId = [] then Some (ValidationError ''experimentId is required'')
         else if notNumberOr (\<lambda>p. js_lt p 1) page
         then Some (ValidationError ''page must be a positive number'')
         else if notNumberOr (\<lambda>l. js_lt l 1 \<or> js_gt l 500) limit
         then Some (ValidationError ''limit must be a number between 1 and 500'')
         else if truthy startDate \<and> \<not> isValidISODate parseDate (idString startDate)
         then Some (ValidationError
                ''startDate must be in ISO 8601 format (YYYY-MM-DDTHH:mm:ssZ)'')
         else if truthy endDate \<and> \<not> isValidISODate parseDate (idString endDate)
         then Some (ValidationError
                ''endDate must be in ISO 8601 format (YYYY-MM-DDTHH:mm:ssZ)'')
         else if truthy startDate \<and> truthy endDate
                 \<and> dateGe (parseDate (idString startDate)) (parseDate (idString endDate))
         then Some (ValidationError ''startDate must be before endDate'')
         else if minScore \<noteq> JUndefined \<and> notNumberOr (\<lambda>x. js_lt x 0 \<or> js_gt x 10) minScore
         then Some (ValidationError ''minScore must be a number between 0 and 10'')
         else if maxScore \<noteq> JUndefined \<and> notNumberOr (\<lambda>x. js_lt x 0 \<or> js_gt x 10) maxScore
         then Some (ValidationError ''maxScore must be a number between 0 and 10'')
         else if truthy outcome \<and> idString outcome \<noteq> ''success''
                 \<and> idString outcome \<noteq> ''failure''
         then Some (ValidationError outcomeMessage)
         else None)"

definition getExperimentEvents ::
  "(request \<Rightarrow> Event list transport) \<Rightarrow> (string \<Rightarrow> int option) \<Rightarrow> string \<Rightarrow> EventFilters
   \<Rightarrow> LaikaTestClient \<Rightarrow> (client_error + EventsResult) \<times> LaikaTestClient" where
  "getExperimentEvents net parseDate experimentId filters c =
     (case validateFilters parseDate experimentId filters of
        Some e \<Rightarrow> (Inl e, c)
      | None \<Rightarrow>
          (let page = orDefault (flt_page filters) 1;
               limit = orDefault (flt_limit filters) 50
           in case makeRequest net (eventsGet experimentId filters page limit) c of
                (Inl e, c1) \<Rightarrow> (Inl (rethrow ''Failed to fetch experiment events'' e), c1)
              | (Inr response, c1) \<Rightarrow>
                  if \<not> success response
                  then (Inl (LaikaServiceError ''Failed to fetch events'' None), c1)
                  else (Inr \<lparr>events = (case data response of None \<Rightarrow> [] | Some d \<Rightarrow> d),
                             result_meta =
                               (case meta response of
                                  None \<Rightarrow> \<lparr>meta_total = JNumber (Finite 0), meta_page = page,
                                            meta_limit = limit\<rparr>
                                | Some m \<Rightarrow> m)\<rparr>, c1)))"

section \<open>Predicates used in the statements\<close>

text \<open>An identifier that the key keeps apart from the sentinel.\<close>

definition plain_id :: "string option \<Rightarrow> bool" where
  "plain_id v = (case v of None \<Rightarrow> True | Some x \<Rightarrow> x \<noteq> [] \<and> x \<noteq> ''null'')"

text \<open>An identifier without a colon, the separator of the key.\<close>

definition colon_free :: "string option \<Rightarrow> bool" where
  "colon_free v = (case v of None \<Rightarrow> True | Some x \<Rightarrow> CHR '':'' \<notin> set x)"

text \<open>
  The resolution order in the words of the specification: the first match among the exact
  triple, the user-only triple (when a user identifier is given) and the session-only
  triple (when a session identifier is given), each looked up in the cache as it is.
\<close>

definition resolutionOrder ::
  "AssignmentCache \<Rightarrow> int \<Rightarrow> string \<Rightarrow> string option \<Rightarrow> string option \<Rightarrow> Assignment option" where
  "resolutionOrder c now experimentId userId sessionId =
     (case fst (get c now experimentId userId sessionId) of
        Some a \<Rightarrow> Some a
      | None \<Rightarrow>
          (case (if truthy userId then fst (get c now experimentId userId None) else None) of
             Some a \<Rightarrow> Some a
           | None \<Rightarrow>
               (if truthy sessionId then fst (get c now experimentId None sessionId) else None)))"

text \<open>
  A score that is present and is either not of type number, or a number below 0 or above
  10. \<open>NaN\<close> is of type number and neither below 0 nor above 10: it is not in this set.
\<close>

definition invalidScore :: "js_value \<Rightarrow> bool" where
  "invalidScore v =
     (case v of
        JUndefined \<Rightarrow> False
      | JNumber (Finite x) \<Rightarrow> x < 0 \<or> x > 10
      | JNumber PosInfinity \<Rightarrow> True
      | JNumber NegInfinity \<Rightarrow> True
      | JNumber NaN \<Rightarrow> False
      | _ \<Rightarrow> True)"

text \<open>A feedback that is present and is not one of the three allowed words.\<close>

definition invalidFeedback :: "string option \<Rightarrow> bool" where
  "invalidFeedback f =
     (case f of None \<Rightarrow> False | Some x \<Rightarrow> x \<notin> {''positive'', ''negative'', ''neutral''})"

text \<open>
  A \<open>page\<close> that is present and is either not of type number, or a number below 1.
  \<open>NaN\<close> is of type number and not below 1: it is not in this set.
\<close>

definition badPage :: "js_value \<Rightarrow> bool" where
  "badPage v =
     (case v of
        JUndefined \<Rightarrow> False
      | JNumber (Finite p) \<Rightarrow> p < 1
      | JNumber PosInfinity \<Rightarrow> False
      | JNumber NegInfinity \<Rightarrow> True
      | JNumber NaN \<Rightarrow> False
      | _ \<Rightarrow> True)"

text \<open>
  A \<open>limit\<close> that is present and is either not of type number, or a number below 1 or
  above 500. \<open>NaN\<close> is not in this set.
\<close>

definition badLimit :: "js_value \<Rightarrow> bool" where
  "badLimit v =
     (case v of
        JUndefined \<Rightarrow> False
      | JNumber (Finite l) \<Rightarrow> l < 1 \<or> l > 500
      | JNumber PosInfinity \<Rightarrow> True
      | JNumber NegInfinity \<Rightarrow> True
      | JNumber NaN \<Rightarrow> False
      | _ \<Rightarrow> True)"

text \<open>The default \<open>filters = {}\<close>.\<close>

definition noFilters :: EventFilters where
  "noFilters =
     \<lparr>flt_startDate = None, flt_endDate = None, flt_userId = None, flt_sessionId = None,
      flt_minScore = JUndefined, flt_maxScore = JUndefined, flt_feedback = None,
      flt_outcome = None, flt_page = JUndefined, flt_limit = JUndefined\<rparr>"

text \<open>
  A transport result with a status in \<open>[200, 300)\<close> whose parsed envelope violates the
  inner contract \<open>bad\<close>.
\<close>

definition malformed2xx :: "('d envelope \<Rightarrow> bool) \<Rightarrow> 'd transport \<Rightarrow> bool" where
  "malformed2xx bad t =
     (case t of Parsed st env \<Rightarrow> 200 \<le> st \<and> st < 300 \<and> bad env | _ \<Rightarrow> False)"

section \<open>Example data\<close>

definition exactAssignment :: Assignment where
  "exactAssignment = \<lparr>assignment_id = ''assign-exact'', prompt_content = ''exact prompt''\<rparr>"

definition userAssignment :: Assignment where
  "userAssignment = \<lparr>assignment_id = ''assign-user'', prompt_content = ''user prompt''\<rparr>"

definition freshClient :: LaikaTestClient where
  "freshClient = \<lparr>assignmentCache = newAssignmentCache 5000, sent = []\<rparr>"

definition userCachedClient :: LaikaTestClient where
  "userCachedClient =
     \<lparr>assignmentCache = store (newAssignmentCache 5000) 0 ''exp1'' (Some ''user1'') None
                          userAssignment,
      sent = []\<rparr>"

definition bothCachedClient :: LaikaTestClient where
  "bothCachedClient =
     \<lparr>assignmentCache =
        store (store (newAssignmentCache 5000) 0 ''exp1'' (Some ''user1'') (Some ''session1'')
                 exactAssignment)
          0 ''exp1'' (Some ''user1'') None userAssignment,
      sent = []\<rparr>"

definition trackingOptions ::
  "string option \<Rightarrow> string option \<Rightarrow> string option \<Rightarrow> TrackingOptions" where
  "trackingOptions experimentId userId sessionId =
     \<lparr>opt_experimentId = experimentId, opt_userId = userId, opt_sessionId = sessionId,
      opt_score = JUndefined, opt_userFeedback = None, opt_assignmentId = None\<rparr>"

text \<open>Transports for the examples: each answers every request in the same way.\<close>

definition unsuccessful :: "request \<Rightarrow> 'd transport" where
  "unsuccessful req = Parsed 200 \<lparr>success = False, data = None, meta = None, error = None\<rparr>"

definition eventAccepted :: "request \<Rightarrow> EventResponse transport" where
  "eventAccepted req =
     Parsed 200 \<lparr>success = True,
                 data = Some \<lparr>event_id = ''event-123'', event_message = None\<rparr>,
                 meta = None, error = None\<rparr>"

definition promptWithoutData :: "request \<Rightarrow> Assignment transport" where
  "promptWithoutData req = Parsed 200 \<lparr>success = True, data = None, meta = None, error = None\<rparr>"

definition promptGranted :: "request \<Rightarrow> Assignment transport" where
  "promptGranted req =
     Parsed 200 \<lparr>success = True, data = Some userAssignment, meta = None, error = None\<rparr>"

definition noEvents :: "request \<Rightarrow> Event list transport" where
  "noEvents req = Parsed 200 \<lparr>success = True, data = Some [], meta = None, error = None\<rparr>"

text \<open>
  A stand-in for the runtime's \<open>Date\<close> on one input: JavaScript reads a date-time
  without an offset as local time, so it parses.
\<close>

definition exampleParser :: "string \<Rightarrow> int option" where
  "exampleParser dateString =
     (if dateString = ''2024-01-15T10:00:00'' then Some 1705312800000 else None)"

section \<open>Properties of the cache\<close>

lemma split_at_first_colon:
  assumes "a @ CHR '':'' # x = b @ CHR '':'' # y"
    and "CHR '':'' \<notin> set a" and "CHR '':'' \<notin> set b"
  shows "a = b \<and> x = y"
  using assms
proof (induction a arbitrary: b)
  case Nil
  then show ?case by (cases b) auto
next
  case (Cons c a)
  then show ?case by (cases b) auto
qed

lemma orNull_inj:
  "plain_id u \<Longrightarrow> plain_id v \<Longrightarrow> orNull u = orNull v \<Longrightarrow> u = v"
  by (auto simp: plain_id_def orNull_def split: option.splits if_splits)

lemma orNull_colon_free: "colon_free u \<Longrightarrow> CHR '':'' \<notin> set (orNull u)"
  by (auto simp: colon_free_def orNull_def split: option.splits)

text \<open>
  Claim C1, as amended. The key is a function of the triple alone, and it is injective on
  the triples whose experiment and user identifiers contain no colon and whose user and
  session identifiers, when present, are neither empty nor the literal string \<open>null\<close>.
\<close>

theorem generateKey_injective:
  assumes "CHR '':'' \<notin> set e1" and "CHR '':'' \<notin> set e2"
    and "colon_free u1" and "colon_free u2"
    and "plain_id u1" and "plain_id u2" and "plain_id s1" and "plain_id s2"
    and "generateKey e1 u1 s1 = generateKey e2 u2 s2"
  shows "e1 = e2 \<and> u1 = u2 \<and> s1 = s2"
proof -
  from assms(9)
  have k: "e1 @ CHR '':'' # (orNull u1 @ CHR '':'' # orNull s1)
         = e2 @ CHR '':'' # (orNull u2 @ CHR '':'' # orNull s2)"
    by (simp add: generateKey_def)
  from split_at_first_colon [OF k assms(1) assms(2)]
  have e: "e1 = e2"
    and r: "orNull u1 @ CHR '':'' # orNull s1 = orNull u2 @ CHR '':'' # orNull s2"
    by simp_all
  from split_at_first_colon [OF r orNull_colon_free [OF assms(3)] orNull_colon_free [OF assms(4)]]
  have "orNull u1 = orNull u2" and "orNull s1 = orNull s2"
    by simp_all
  with assms(5-8) e show ?thesis
    by (simp add: orNull_inj)
qed

theorem generateKey_injective_witness:
  "generateKey ''exp1'' (Some ''user1'') None \<noteq> generateKey ''exp1'' None (Some ''session1'')"
proof
  assume "generateKey ''exp1'' (Some ''user1'') None = generateKey ''exp1'' None (Some ''session1'')"
  then have "''exp1'' = ''exp1'' \<and> Some ''user1'' = (None :: string option)
      \<and> (None :: string option) = Some ''session1''"
    by (intro generateKey_injective) (simp_all add: colon_free_def plain_id_def)
  then show False by simp
qed

text \<open>
  The claim as stated fails: a user identifier and a session identifier that are the
  literal \<open>null\<close> give the user-only and the session-only triple the same key, and a colon
  inside an identifier moves the boundary between two fields.
\<close>

theorem generateKey_collision:
  "generateKey ''e'' (Some ''null'') None = generateKey ''e'' None (Some ''null'')
   \<and> (''e'', Some ''null'', None :: string option) \<noteq> (''e'', None, Some ''null'')
   \<and> generateKey ''e'' (Some ''u:x'') (Some ''s'') = generateKey ''e'' (Some ''u'') (Some ''x:s'')
   \<and> (''e'', Some ''u:x'', Some ''s'') \<noteq> (''e'', Some ''u'', Some ''x:s'')"
  by (simp add: generateKey_def orNull_def)

text \<open>
  Claim C3. With a time-to-live that is not negative, \<open>store\<close> followed by a \<open>get\<close> at
  the same instant returns the stored assignment unchanged, as does any \<open>get\<close> up to the
  expiry time; a \<open>get\<close> later than \<open>ttl\<close> after the \<open>store\<close> returns \<open>null\<close> and deletes
  the entry.
\<close>

theorem store_then_get:
  "(0 \<le> ttl c \<longrightarrow> get (store c now e u s a) now e u s = (Some a, store c now e u s a))
   \<and> (later \<le> now + ttl c \<longrightarrow>
        get (store c now e u s a) later e u s = (Some a, store c now e u s a))
   \<and> (later > now + ttl c \<longrightarrow>
        fst (get (store c now e u s a) later e u s) = None
        \<and> cache (snd (get (store c now e u s a) later e u s)) (generateKey e u s) = None)"
  by (simp add: get_def store_def Let_def)

theorem store_then_get_witness:
  "(0::int) \<le> ttl (newAssignmentCache 100)
   \<and> get (store (newAssignmentCache 100) 0 ''e'' (Some ''u'') None
            \<lparr>assignment_id = ''ttl-123'', prompt_content = ''p''\<rparr>) 0 ''e'' (Some ''u'') None
       = (Some \<lparr>assignment_id = ''ttl-123'', prompt_content = ''p''\<rparr>,
          store (newAssignmentCache 100) 0 ''e'' (Some ''u'') None
            \<lparr>assignment_id = ''ttl-123'', prompt_content = ''p''\<rparr>)
   \<and> (150::int) > 0 + ttl (newAssignmentCache 100)
   \<and> fst (get (store (newAssignmentCache 100) 0 ''e'' (Some ''u'') None
            \<lparr>assignment_id = ''ttl-123'', prompt_content = ''p''\<rparr>) 150 ''e'' (Some ''u'') None) = None
   \<and> cache (snd (get (store (newAssignmentCache 100) 0 ''e'' (Some ''u'') None
            \<lparr>assignment_id = ''ttl-123'', prompt_content = ''p''\<rparr>) 150 ''e'' (Some ''u'') None))
        (generateKey ''e'' (Some ''u'') None) = None"
  using store_then_get [of "newAssignmentCache 100" 0 "''e''" "Some ''u''" None
      "\<lparr>assignment_id = ''ttl-123'', prompt_content = ''p''\<rparr>" 150]
  by (simp add: newAssignmentCache_def)

lemma fst_get_after_get:
  "fst (get (snd (get c now e u s)) now e' u' s') = fst (get c now e' u' s')"
  by (auto simp: get_def Let_def split: option.splits)

lemma get_then_get:
  "get c now e u s = (r, c1) \<Longrightarrow> fst (get c1 now e' u' s') = fst (get c now e' u' s')"
  using fst_get_after_get [of c now e u s e' u' s'] by simp

lemma fst_findCachedAssignment:
  "fst (findCachedAssignment c now e u s) = resolutionOrder c now e u s"
proof (cases "get c now e u s")
  case g1: (Pair r1 c1)
  then have f1: "fst (get c now e u s) = r1" by simp
  show ?thesis
  proof (cases r1)
    case (Some a)
    with g1 show ?thesis by (simp add: findCachedAssignment_def resolutionOrder_def)
  next
    case n1: None
    obtain r2 c2 where g2: "(if truthy u then get c1 now e u None else (None, c1)) = (r2, c2)"
      by (cases "if truthy u then get c1 now e u None else (None, c1)")
    have f2: "(if truthy u then fst (get c now e u None) else None) = r2"
      using g2 get_then_get [OF g1, of e u None] by (auto split: if_splits)
    show ?thesis
    proof (cases r2)
      case (Some a)
      have "fst (findCachedAssignment c now e u s) = Some a"
        unfolding findCachedAssignment_def g1 n1 by (simp add: g2 Some)
      moreover have "resolutionOrder c now e u s = Some a"
        unfolding resolutionOrder_def f1 n1 f2 Some by simp
      ultimately show ?thesis by simp
    next
      case n2: None
      obtain r3 c3 where
        g3: "(if truthy s then get c2 now e None s else (None, c2)) = (r3, c3)"
        by (cases "if truthy s then get c2 now e None s else (None, c2)")
      have "fst (get c2 now e None s) = fst (get c now e None s)"
      proof (cases "truthy u")
        case True
        with g2 have "get c1 now e u None = (r2, c2)" by simp
        from get_then_get [OF this, of e None s] get_then_get [OF g1, of e None s]
        show ?thesis by simp
      next
        case False
        with g2 have "c2 = c1" by simp
        with get_then_get [OF g1, of e None s] show ?thesis by simp
      qed
      with g3 have f3: "(if truthy s then fst (get c now e None s) else None) = r3"
        by (auto split: if_splits)
      have "fst (findCachedAssignment c now e u s) = r3"
        unfolding findCachedAssignment_def g1 n1 by (cases r3) (simp_all add: g2 n2 g3)
      moreover have "resolutionOrder c now e u s = r3"
        unfolding resolutionOrder_def f1 n1 f2 n2 f3 by simp
      ultimately show ?thesis by simp
    qed
  qed
qed

section \<open>The transport\<close>

lemmas example_defs = exactAssignment_def userAssignment_def freshClient_def
  bothCachedClient_def userCachedClient_def trackingOptions_def eventAccepted_def
  promptWithoutData_def promptGranted_def noEvents_def newAssignmentCache_def
  unsuccessful_def exampleParser_def

lemma makeRequest_client:
  "snd (makeRequest net req c) = c\<lparr>sent := sent c @ [req]\<rparr>"
  by (simp add: makeRequest_def Let_def split: transport.splits)

lemma makeRequest_malformed:
  "malformed2xx bad (net req) \<Longrightarrow>
   \<exists>env. bad env \<and> makeRequest net req c = (Inr env, c\<lparr>sent := sent c @ [req]\<rparr>)"
  by (auto simp: malformed2xx_def makeRequest_def Let_def split: transport.splits)

section \<open>Properties of outcome tracking\<close>

lemma resolveAssignmentId_sent:
  "sent (snd (resolveAssignmentId now options c)) = sent c"
  by (simp add: resolveAssignmentId_def Let_def split: prod.splits option.splits)

lemma trackOutcome_rejected_early:
  assumes "resolveAssignmentId now options c = (Inl e, c1)"
    and "outcome = ''success'' \<or> outcome = ''failure''"
  shows "trackOutcome net now outcome options c = (Inl e, c1)"
  using assms by (auto simp: trackOutcome_def)

lemma trackOutcome_posts:
  assumes "outcome = ''success'' \<or> outcome = ''failure''"
    and "resolveAssignmentId now options c = (Inr aid, c1)"
    and "checkScore (opt_score options) = Inr sc"
    and "checkFeedback (opt_userFeedback options) = Inr fb"
  shows "snd (trackOutcome net now outcome options c) =
         c1\<lparr>sent := sent c1 @ [eventPost \<lparr>ev_assignment_id = aid, ev_outcome = outcome,
                                 ev_score = sc, ev_user_feedback = fb\<rparr>]\<rparr>"
proof -
  let ?req = "eventPost \<lparr>ev_assignment_id = aid, ev_outcome = outcome,
                         ev_score = sc, ev_user_feedback = fb\<rparr>"
  obtain r c2 where m: "makeRequest net ?req c1 = (r, c2)"
    by (cases "makeRequest net ?req c1")
  with makeRequest_client [of net ?req c1] have "c2 = c1\<lparr>sent := sent c1 @ [?req]\<rparr>"
    by simp
  with assms m show ?thesis
    by (auto simp: trackOutcome_def Let_def split: sum.splits)
qed

lemma resolve_from_cache:
  assumes "\<not> truthy (opt_assignmentId options)"
    and "opt_experimentId options = Some e" and "e \<noteq> []"
    and "truthy (opt_userId options) \<or> truthy (opt_sessionId options)"
  shows "fst (resolveAssignmentId now options c) =
          (case resolutionOrder (assignmentCache c) now e (opt_userId options)
                  (opt_sessionId options) of
             None \<Rightarrow> Inl (AssignmentNotFoundError
                     (''No assignment found for experiment '' @ e
                      @ ''. Call getPrompt* method first.''))
           | Some a \<Rightarrow> Inr (assignment_id a))"
proof -
  obtain r ac where
    f: "findCachedAssignment (assignmentCache c) now e (opt_userId options)
          (opt_sessionId options) = (r, ac)"
    by (cases "findCachedAssignment (assignmentCache c) now e (opt_userId options)
          (opt_sessionId options)")
  with fst_findCachedAssignment [of "assignmentCache c" now e "opt_userId options"
      "opt_sessionId options"]
  have "resolutionOrder (assignmentCache c) now e (opt_userId options)
          (opt_sessionId options) = r"
    by simp
  with assms f show ?thesis
    by (auto simp: resolveAssignmentId_def Let_def truthy_def idString_def split: option.splits)
qed

text \<open>
  Claim C2. For a call of \<open>trackOutcome\<close> with a valid outcome, no explicit assignment
  identifier, an experiment identifier and a user or session identifier, the assignment
  found is the first match of the order exact triple, user only, session only, each probe
  read on the cache as the call finds it; the event that is posted carries the
  \<open>assignment_id\<close> of that match; and when the exact triple has a live entry, the posted
  event carries that entry's \<open>assignment_id\<close>, whatever the user-only entry holds.
\<close>

theorem trackOutcome_resolution_order:
  assumes "outcome = ''success'' \<or> outcome = ''failure''"
    and "\<not> truthy (opt_assignmentId options)"
    and "opt_experimentId options = Some e" and "e \<noteq> []"
    and "truthy (opt_userId options) \<or> truthy (opt_sessionId options)"
  shows "fst (findCachedAssignment (assignmentCache c) now e (opt_userId options)
               (opt_sessionId options))
         = resolutionOrder (assignmentCache c) now e (opt_userId options) (opt_sessionId options)
     \<and> (\<forall>a sc fb.
          resolutionOrder (assignmentCache c) now e (opt_userId options) (opt_sessionId options)
            = Some a
          \<and> checkScore (opt_score options) = Inr sc
          \<and> checkFeedback (opt_userFeedback options) = Inr fb
          \<longrightarrow> sent (snd (trackOutcome net now outcome options c))
              = sent c @ [eventPost \<lparr>ev_assignment_id = assignment_id a, ev_outcome = outcome,
                                     ev_score = sc, ev_user_feedback = fb\<rparr>])
     \<and> (\<forall>a sc fb.
          fst (get (assignmentCache c) now e (opt_userId options) (opt_sessionId options))
            = Some a
          \<and> checkScore (opt_score options) = Inr sc
          \<and> checkFeedback (opt_userFeedback options) = Inr fb
          \<longrightarrow> sent (snd (trackOutcome net now outcome options c))
              = sent c @ [eventPost \<lparr>ev_assignment_id = assignment_id a, ev_outcome = outcome,
                                     ev_score = sc, ev_user_feedback = fb\<rparr>])"
proof -
  let ?R = "resolutionOrder (assignmentCache c) now e (opt_userId options)
              (opt_sessionId options)"
  have posted: "sent (snd (trackOutcome net now outcome options c))
      = sent c @ [eventPost \<lparr>ev_assignment_id = assignment_id a, ev_outcome = outcome,
                             ev_score = sc, ev_user_feedback = fb\<rparr>]"
    if "?R = Some a" and "checkScore (opt_score options) = Inr sc"
      and "checkFeedback (opt_userFeedback options) = Inr fb" for a sc fb
  proof -
    obtain r c1 where res: "resolveAssignmentId now options c = (r, c1)"
      by (cases "resolveAssignmentId now options c")
    with resolve_from_cache [OF assms(2-5), of now c] that(1)
    have "r = Inr (assignment_id a)" by simp
    with res have res': "resolveAssignmentId now options c = (Inr (assignment_id a), c1)"
      by simp
    from resolveAssignmentId_sent [of now options c] res have "sent c1 = sent c" by simp
    with trackOutcome_posts [OF assms(1) res' that(2) that(3), of net] show ?thesis
      by simp
  qed
  have exact: "?R = Some a"
    if "fst (get (assignmentCache c) now e (opt_userId options) (opt_sessionId options))
          = Some a" for a
    using that by (simp add: resolutionOrder_def)
  show ?thesis
    using posted exact by (simp add: fst_findCachedAssignment)
qed

theorem trackOutcome_resolution_order_witness:
  "\<not> truthy (opt_assignmentId (trackingOptions (Some ''exp1'') (Some ''user1'') (Some ''session1'')))
   \<and> truthy (opt_userId (trackingOptions (Some ''exp1'') (Some ''user1'') (Some ''session1'')))
   \<and> fst (get (assignmentCache bothCachedClient) 5 ''exp1'' (Some ''user1'') (Some ''session1''))
       = Some exactAssignment
   \<and> fst (get (assignmentCache bothCachedClient) 5 ''exp1'' (Some ''user1'') None)
       = Some userAssignment
   \<and> sent (snd (trackOutcome eventAccepted 5 ''success''
                  (trackingOptions (Some ''exp1'') (Some ''user1'') (Some ''session1''))
                  bothCachedClient))
       = [eventPost \<lparr>ev_assignment_id = ''assign-exact'', ev_outcome = ''success'',
                     ev_score = None, ev_user_feedback = None\<rparr>]"
  using trackOutcome_resolution_order [of "''success''"
      "trackingOptions (Some ''exp1'') (Some ''user1'') (Some ''session1'')" "''exp1''"
      bothCachedClient 5 eventAccepted]
  by (simp add: example_defs truthy_def get_def store_def generateKey_def orNull_def
      checkScore_def checkFeedback_def resolutionOrder_def)

text \<open>
  Claim C5. A call of \<open>trackOutcome\<close> with a valid outcome, an experiment identifier and a
  user or session identifier but no explicit assignment identifier, for which none of the
  probes (exact triple, user only, session only) finds a live entry, fails with
  \<open>AssignmentNotFoundError\<close>, and no request is handed to the transport.
\<close>

theorem trackOutcome_assignment_not_found:
  assumes "outcome = ''success'' \<or> outcome = ''failure''"
    and "\<not> truthy (opt_assignmentId options)"
    and "opt_experimentId options = Some e" and "e \<noteq> []"
    and "truthy (opt_userId options) \<or> truthy (opt_sessionId options)"
    and "fst (get (assignmentCache c) now e (opt_userId options) (opt_sessionId options)) = None"
    and "truthy (opt_userId options) \<longrightarrow>
           fst (get (assignmentCache c) now e (opt_userId options) None) = None"
    and "truthy (opt_sessionId options) \<longrightarrow>
           fst (get (assignmentCache c) now e None (opt_sessionId options)) = None"
  shows "fst (trackOutcome net now outcome options c)
           = Inl (AssignmentNotFoundError
                   (''No assignment found for experiment '' @ e
                    @ ''. Call getPrompt* method first.''))
         \<and> sent (snd (trackOutcome net now outcome options c)) = sent c"
proof -
  from assms(6-8)
  have "resolutionOrder (assignmentCache c) now e (opt_userId options) (opt_sessionId options)
          = None"
    by (simp add: resolutionOrder_def)
  with resolve_from_cache [OF assms(2-5), of now c]
  have r: "fst (resolveAssignmentId now options c)
        = Inl (AssignmentNotFoundError
                (''No assignment found for experiment '' @ e
                 @ ''. Call getPrompt* method first.''))"
    by simp
  obtain c1 where "resolveAssignmentId now options c
        = (Inl (AssignmentNotFoundError
                (''No assignment found for experiment '' @ e
                 @ ''. Call getPrompt* method first.'')), c1)"
    using r by (cases "resolveAssignmentId now options c") simp
  from trackOutcome_rejected_early [OF this assms(1), of net]
    resolveAssignmentId_sent [of now options c] this
  show ?thesis by simp
qed

theorem trackOutcome_assignment_not_found_witness:
  "\<not> truthy (opt_assignmentId (trackingOptions (Some ''exp-notfound'') (Some ''user-notfound'') None))
   \<and> truthy (opt_userId (trackingOptions (Some ''exp-notfound'') (Some ''user-notfound'') None))
   \<and> fst (get (assignmentCache freshClient) 5 ''exp-notfound'' (Some ''user-notfound'') None) = None
   \<and> fst (trackOutcome eventAccepted 5 ''success''
            (trackingOptions (Some ''exp-notfound'') (Some ''user-notfound'') None) freshClient)
       = Inl (AssignmentNotFoundError
               ''No assignment found for experiment exp-notfound. Call getPrompt* method first.'')
   \<and> sent (snd (trackOutcome eventAccepted 5 ''success''
            (trackingOptions (Some ''exp-notfound'') (Some ''user-notfound'') None) freshClient))
       = []"
  using trackOutcome_assignment_not_found [of "''success''"
      "trackingOptions (Some ''exp-notfound'') (Some ''user-notfound'') None" "''exp-notfound''"
      freshClient 5 eventAccepted]
  by (simp add: example_defs truthy_def get_def)

lemma checkScore_invalid:
  "invalidScore v \<Longrightarrow> checkScore v = Inl (ValidationError ''score must be a number between 0 and 10'')"
proof (cases v)
  case (JNumber x)
  then show "invalidScore v \<Longrightarrow> ?thesis"
    by (cases x) (auto simp: invalidScore_def checkScore_def)
qed (auto simp: invalidScore_def checkScore_def)

text \<open>
  \<open>NaN\<close> passes the score check and is attached to the event; the statements below do
  not count it among the invalid scores.
\<close>

lemma checkScore_NaN: "checkScore (JNumber NaN) = Inr (Some NaN)"
  by (simp add: checkScore_def)

lemma checkFeedback_invalid:
  "invalidFeedback f \<Longrightarrow> checkFeedback f = Inl (ValidationError feedbackMessage)"
  by (cases f) (auto simp: invalidFeedback_def checkFeedback_def)

lemma checkScore_error: "checkScore v = Inl e \<Longrightarrow> \<exists>m. e = ValidationError m"
  by (cases v) (auto simp: checkScore_def split: if_splits)

lemma checkFeedback_error: "checkFeedback f = Inl e \<Longrightarrow> \<exists>m. e = ValidationError m"
  by (cases f) (auto simp: checkFeedback_def split: if_splits)

lemma checkFeedback_value: "checkFeedback f = Inr fb \<Longrightarrow> fb = f"
  by (cases f) (auto simp: checkFeedback_def split: if_splits)

lemma resolveAssignmentId_error:
  "resolveAssignmentId now options c = (Inl e, c1) \<Longrightarrow>
   \<exists>m. e = ValidationError m \<or> e = AssignmentNotFoundError m"
  by (auto simp: resolveAssignmentId_def Let_def split: if_splits prod.splits option.splits)

lemma resolveAssignmentId_explicit:
  "truthy (opt_assignmentId options) \<Longrightarrow> truthy (opt_experimentId options) \<Longrightarrow>
   resolveAssignmentId now options c = (Inr (idString (opt_assignmentId options)), c)"
  by (simp add: resolveAssignmentId_def)

lemma trackOutcome_invalid_input:
  assumes "outcome = ''success'' \<or> outcome = ''failure''"
    and "resolveAssignmentId now options c = (Inr aid, c1)"
    and "invalidScore (opt_score options) \<or> invalidFeedback (opt_userFeedback options)"
  shows "\<exists>m. trackOutcome net now outcome options c = (Inl (ValidationError m), c1)"
proof (cases "checkScore (opt_score options)")
  case (Inl e)
  with checkScore_error [OF Inl] assms(1,2) show ?thesis
    by (auto simp: trackOutcome_def)
next
  case (Inr sc)
  with assms(3) checkScore_invalid [of "opt_score options"]
  have "invalidFeedback (opt_userFeedback options)" by auto
  from checkFeedback_invalid [OF this] Inr assms(1,2) show ?thesis
    by (auto simp: trackOutcome_def)
qed

lemma resolveAssignmentId_from_cache:
  assumes "\<not> truthy (opt_assignmentId options)"
    and "opt_experimentId options = Some e" and "e \<noteq> []"
    and "truthy (opt_userId options) \<or> truthy (opt_sessionId options)"
  shows "resolveAssignmentId now options c =
          (case findCachedAssignment (assignmentCache c) now e (opt_userId options)
                  (opt_sessionId options) of
             (None, ac) \<Rightarrow>
               (Inl (AssignmentNotFoundError
                      (''No assignment found for experiment '' @ e
                       @ ''. Call getPrompt* method first.'')),
                c\<lparr>assignmentCache := ac\<rparr>)
           | (Some a, ac) \<Rightarrow> (Inr (assignment_id a), c\<lparr>assignmentCache := ac\<rparr>))"
proof -
  from assms(2,3) have "truthy (opt_experimentId options)"
    by (simp add: truthy_def)
  with assms show ?thesis
    by (simp add: resolveAssignmentId_def Let_def idString_def
        split: prod.splits option.splits)
qed

text \<open>
  Claim C6, as amended. The outcome is validated before any cache or network access: an
  invalid outcome gives \<open>ValidationError\<close> and leaves the client as it was. The score and
  the user feedback are validated after the assignment has been resolved and before the
  request is made. So a call whose score is not of type number or is a number below 0 or
  above 10, or whose feedback is not one of the three words, never reaches the network;
  with an explicit assignment identifier it fails with \<open>ValidationError\<close> and the cache
  untouched; when the assignment is looked up in the cache, the lookup runs first (and
  leaves the cache as \<open>_findCachedAssignment\<close> leaves it), and the call fails with
  \<open>AssignmentNotFoundError\<close> if nothing is found and with \<open>ValidationError\<close> if an
  assignment is found. The statement is silent on the score \<open>NaN\<close>.
\<close>

theorem trackOutcome_validation:
  "(outcome \<noteq> ''success'' \<and> outcome \<noteq> ''failure'' \<longrightarrow>
      trackOutcome net now outcome options c = (Inl (ValidationError outcomeMessage), c))
   \<and> (invalidScore (opt_score options) \<or> invalidFeedback (opt_userFeedback options) \<longrightarrow>
        sent (snd (trackOutcome net now outcome options c)) = sent c
        \<and> (\<exists>m. fst (trackOutcome net now outcome options c) = Inl (ValidationError m)
              \<or> fst (trackOutcome net now outcome options c) = Inl (AssignmentNotFoundError m)))
   \<and> ((invalidScore (opt_score options) \<or> invalidFeedback (opt_userFeedback options))
        \<and> truthy (opt_assignmentId options) \<and> truthy (opt_experimentId options) \<longrightarrow>
        (\<exists>m. trackOutcome net now outcome options c = (Inl (ValidationError m), c)))
   \<and> ((invalidScore (opt_score options) \<or> invalidFeedback (opt_userFeedback options))
        \<and> (\<exists>aid. fst (resolveAssignmentId now options c) = Inr aid) \<longrightarrow>
        (\<exists>m. fst (trackOutcome net now outcome options c) = Inl (ValidationError m)))
   \<and> ((outcome = ''success'' \<or> outcome = ''failure'')
        \<and> (invalidScore (opt_score options) \<or> invalidFeedback (opt_userFeedback options))
        \<and> \<not> truthy (opt_assignmentId options)
        \<and> opt_experimentId options = Some e \<and> e \<noteq> []
        \<and> (truthy (opt_userId options) \<or> truthy (opt_sessionId options)) \<longrightarrow>
        (case findCachedAssignment (assignmentCache c) now e (opt_userId options)
                (opt_sessionId options) of
           (None, ac) \<Rightarrow>
             trackOutcome net now outcome options c
               = (Inl (AssignmentNotFoundError
                        (''No assignment found for experiment '' @ e
                         @ ''. Call getPrompt* method first.'')),
                  c\<lparr>assignmentCache := ac\<rparr>)
         | (Some a, ac) \<Rightarrow>
             (\<exists>m. trackOutcome net now outcome options c
                    = (Inl (ValidationError m), c\<lparr>assignmentCache := ac\<rparr>))))"
proof -
  have order:
    "case findCachedAssignment (assignmentCache c) now e (opt_userId options)
            (opt_sessionId options) of
       (None, ac) \<Rightarrow>
         trackOutcome net now outcome options c
           = (Inl (AssignmentNotFoundError
                    (''No assignment found for experiment '' @ e
                     @ ''. Call getPrompt* method first.'')),
              c\<lparr>assignmentCache := ac\<rparr>)
     | (Some a, ac) \<Rightarrow>
         (\<exists>m. trackOutcome net now outcome options c
                = (Inl (ValidationError m), c\<lparr>assignmentCache := ac\<rparr>))"
    if ok: "outcome = ''success'' \<or> outcome = ''failure''"
      and bad: "invalidScore (opt_score options) \<or> invalidFeedback (opt_userFeedback options)"
      and shape: "\<not> truthy (opt_assignmentId options)" "opt_experimentId options = Some e"
        "e \<noteq> []" "truthy (opt_userId options) \<or> truthy (opt_sessionId options)"
  proof -
    obtain r ac where f: "findCachedAssignment (assignmentCache c) now e (opt_userId options)
            (opt_sessionId options) = (r, ac)"
      by (cases "findCachedAssignment (assignmentCache c) now e (opt_userId options)
            (opt_sessionId options)")
    show ?thesis
    proof (cases r)
      case None
      with resolveAssignmentId_from_cache [OF shape, of now c] f
      have "resolveAssignmentId now options c
          = (Inl (AssignmentNotFoundError
                    (''No assignment found for experiment '' @ e
                     @ ''. Call getPrompt* method first.'')),
             c\<lparr>assignmentCache := ac\<rparr>)"
        by simp
      from trackOutcome_rejected_early [OF this ok, of net] f None show ?thesis by simp
    next
      case (Some a)
      with resolveAssignmentId_from_cache [OF shape, of now c] f
      have "resolveAssignmentId now options c
          = (Inr (assignment_id a), c\<lparr>assignmentCache := ac\<rparr>)"
        by simp
      from trackOutcome_invalid_input [OF ok this bad, of net] f Some show ?thesis by simp
    qed
  qed
  have rest:
    "(outcome \<noteq> ''success'' \<and> outcome \<noteq> ''failure'' \<longrightarrow>
      trackOutcome net now outcome options c = (Inl (ValidationError outcomeMessage), c))
   \<and> (invalidScore (opt_score options) \<or> invalidFeedback (opt_userFeedback options) \<longrightarrow>
        sent (snd (trackOutcome net now outcome options c)) = sent c
        \<and> (\<exists>m. fst (trackOutcome net now outcome options c) = Inl (ValidationError m)
              \<or> fst (trackOutcome net now outcome options c) = Inl (AssignmentNotFoundError m)))
   \<and> ((invalidScore (opt_score options) \<or> invalidFeedback (opt_userFeedback options))
        \<and> truthy (opt_assignmentId options) \<and> truthy (opt_experimentId options) \<longrightarrow>
        (\<exists>m. trackOutcome net now outcome options c = (Inl (ValidationError m), c)))
   \<and> ((invalidScore (opt_score options) \<or> invalidFeedback (opt_userFeedback options))
        \<and> (\<exists>aid. fst (resolveAssignmentId now options c) = Inr aid) \<longrightarrow>
        (\<exists>m. fst (trackOutcome net now outcome options c) = Inl (ValidationError m)))"
  proof (cases "outcome = ''success'' \<or> outcome = ''failure''")
    case False
    then show ?thesis by (auto simp: trackOutcome_def)
  next
    case ok: True
    obtain r c1 where res: "resolveAssignmentId now options c = (r, c1)"
      by (cases "resolveAssignmentId now options c")
    from resolveAssignmentId_sent [of now options c] res have s1: "sent c1 = sent c" by simp
    show ?thesis
    proof (cases r)
      case (Inl e)
      with res have res': "resolveAssignmentId now options c = (Inl e, c1)" by simp
      from trackOutcome_rejected_early [OF res' ok, of net] resolveAssignmentId_error [OF res']
        resolveAssignmentId_explicit [of options now c] res' s1 ok
      show ?thesis by auto
    next
      case (Inr aid)
      with res have res': "resolveAssignmentId now options c = (Inr aid, c1)" by simp
      have "\<exists>m. trackOutcome net now outcome options c = (Inl (ValidationError m), c1)"
        if "invalidScore (opt_score options) \<or> invalidFeedback (opt_userFeedback options)"
        using trackOutcome_invalid_input [OF ok res' that] .
      moreover have "c1 = c"
        if "truthy (opt_assignmentId options) \<and> truthy (opt_experimentId options)"
        using that resolveAssignmentId_explicit [of options now c] res' by simp
      ultimately show ?thesis using ok s1 by fastforce
    qed
  qed
  have last:
    "(outcome = ''success'' \<or> outcome = ''failure'')
        \<and> (invalidScore (opt_score options) \<or> invalidFeedback (opt_userFeedback options))
        \<and> \<not> truthy (opt_assignmentId options)
        \<and> opt_experimentId options = Some e \<and> e \<noteq> []
        \<and> (truthy (opt_userId options) \<or> truthy (opt_sessionId options)) \<longrightarrow>
        (case findCachedAssignment (assignmentCache c) now e (opt_userId options)
                (opt_sessionId options) of
           (None, ac) \<Rightarrow>
             trackOutcome net now outcome options c
               = (Inl (AssignmentNotFoundError
                        (''No assignment found for experiment '' @ e
                         @ ''. Call getPrompt* method first.'')),
                  c\<lparr>assignmentCache := ac\<rparr>)
         | (Some a, ac) \<Rightarrow>
             (\<exists>m. trackOutcome net now outcome options c
                    = (Inl (ValidationError m), c\<lparr>assignmentCache := ac\<rparr>)))"
  proof (intro impI, elim conjE)
    assume "outcome = ''success'' \<or> outcome = ''failure''"
      and "invalidScore (opt_score options) \<or> invalidFeedback (opt_userFeedback options)"
      and "\<not> truthy (opt_assignmentId options)"
      and "opt_experimentId options = Some e" and "e \<noteq> []"
      and "truthy (opt_userId options) \<or> truthy (opt_sessionId options)"
    then show "case findCachedAssignment (assignmentCache c) now e (opt_userId options)
                (opt_sessionId options) of
           (None, ac) \<Rightarrow>
             trackOutcome net now outcome options c
               = (Inl (AssignmentNotFoundError
                        (''No assignment found for experiment '' @ e
                         @ ''. Call getPrompt* method first.'')),
                  c\<lparr>assignmentCache := ac\<rparr>)
         | (Some a, ac) \<Rightarrow>
             (\<exists>m. trackOutcome net now outcome options c
                    = (Inl (ValidationError m), c\<lparr>assignmentCache := ac\<rparr>))"
      by (rule order)
  qed
  from rest last show ?thesis
    by (elim conjE, intro conjI) assumption+
qed

theorem trackOutcome_validation_witness:
  "trackOutcome eventAccepted 5 ''invalid'' (trackingOptions None None None) freshClient
     = (Inl (ValidationError outcomeMessage), freshClient)
   \<and> invalidScore (JNumber (Finite 15))
   \<and> trackOutcome eventAccepted 5 ''success''
        ((trackingOptions (Some ''exp1'') None None)
           \<lparr>opt_score := JNumber (Finite 15), opt_assignmentId := Some ''assign-1''\<rparr>)
        userCachedClient
       = (Inl (ValidationError ''score must be a number between 0 and 10''), userCachedClient)
   \<and> invalidFeedback (Some ''invalid'')
   \<and> sent (snd (trackOutcome eventAccepted 5 ''success''
                  ((trackingOptions (Some ''exp1'') (Some ''user1'') None)
                     \<lparr>opt_userFeedback := Some ''invalid''\<rparr>)
                  userCachedClient)) = []
   \<and> findCachedAssignment (assignmentCache userCachedClient) 5 ''exp1'' (Some ''user1'') None
       = (Some userAssignment, assignmentCache userCachedClient)
   \<and> trackOutcome eventAccepted 5 ''success''
        ((trackingOptions (Some ''exp1'') (Some ''user1'') None)
           \<lparr>opt_score := JNumber (Finite 15)\<rparr>)
        userCachedClient
       = (Inl (ValidationError ''score must be a number between 0 and 10''), userCachedClient)"
  using trackOutcome_validation [of "''invalid''" eventAccepted 5
      "trackingOptions None None None" freshClient]
    trackOutcome_validation [of "''success''" eventAccepted 5
      "(trackingOptions (Some ''exp1'') None None)
         \<lparr>opt_score := JNumber (Finite 15), opt_assignmentId := Some ''assign-1''\<rparr>" userCachedClient]
    trackOutcome_validation [of "''success''" eventAccepted 5
      "(trackingOptions (Some ''exp1'') (Some ''user1'') None)
         \<lparr>opt_userFeedback := Some ''invalid''\<rparr>" userCachedClient]
    trackOutcome_validation [of "''success''" eventAccepted 5
      "(trackingOptions (Some ''exp1'') (Some ''user1'') None)
         \<lparr>opt_score := JNumber (Finite 15)\<rparr>" userCachedClient "''exp1''"]
  by (simp add: example_defs truthy_def idString_def invalidScore_def invalidFeedback_def
      trackOutcome_def resolveAssignmentId_def checkScore_def findCachedAssignment_def
      get_def store_def generateKey_def orNull_def)

text \<open>
  The claim as stated fails: with the score 15, an experiment and a user whose cached
  assignment has expired, the call reads the cache, deletes the expired entry and fails
  with \<open>AssignmentNotFoundError\<close>, not with \<open>ValidationError\<close>.
\<close>

theorem trackOutcome_validation_counterexample:
  "opt_score ((trackingOptions (Some ''exp1'') (Some ''user1'') None)\<lparr>opt_score := JNumber (Finite 15)\<rparr>)
     = JNumber (Finite 15)
   \<and> fst (trackOutcome eventAccepted 6000 ''success''
            ((trackingOptions (Some ''exp1'') (Some ''user1'') None)\<lparr>opt_score := JNumber (Finite 15)\<rparr>)
            userCachedClient)
       = Inl (AssignmentNotFoundError
               ''No assignment found for experiment exp1. Call getPrompt* method first.'')
   \<and> cache (assignmentCache userCachedClient) ''exp1:user1:null''
       = Some \<lparr>assignment = userAssignment, expiresAt = 5000\<rparr>
   \<and> cache (assignmentCache (snd (trackOutcome eventAccepted 6000 ''success''
            ((trackingOptions (Some ''exp1'') (Some ''user1'') None)\<lparr>opt_score := JNumber (Finite 15)\<rparr>)
            userCachedClient))) ''exp1:user1:null''
       = None"
  by (simp add: example_defs trackOutcome_def resolveAssignmentId_def findCachedAssignment_def
      truthy_def idString_def get_def store_def generateKey_def orNull_def)

lemma trackOutcome_sent_cases:
  "sent (snd (trackOutcome net now outcome options c)) = sent c
   \<or> (\<exists>ed. sent (snd (trackOutcome net now outcome options c)) = sent c @ [eventPost ed]
          \<and> ev_outcome ed = outcome
          \<and> ev_user_feedback ed = opt_userFeedback options)"
proof (cases "outcome = ''success'' \<or> outcome = ''failure''")
  case False
  then show ?thesis by (auto simp: trackOutcome_def)
next
  case ok: True
  obtain r c1 where res: "resolveAssignmentId now options c = (r, c1)"
    by (cases "resolveAssignmentId now options c")
  from resolveAssignmentId_sent [of now options c] res have s1: "sent c1 = sent c" by simp
  show ?thesis
  proof (cases r)
    case (Inl e)
    with res trackOutcome_rejected_early [OF _ ok, of now options c e c1 net] s1
    show ?thesis by simp
  next
    case (Inr aid)
    with res have res': "resolveAssignmentId now options c = (Inr aid, c1)" by simp
    show ?thesis
    proof (cases "checkScore (opt_score options)")
      case (Inl e)
      with ok res' s1 show ?thesis by (auto simp: trackOutcome_def)
    next
      case sc: (Inr sc)
      show ?thesis
      proof (cases "checkFeedback (opt_userFeedback options)")
        case (Inl e)
        with ok res' s1 sc show ?thesis by (auto simp: trackOutcome_def)
      next
        case (Inr fb)
        let ?ed = "\<lparr>ev_assignment_id = aid, ev_outcome = outcome, ev_score = sc,
                     ev_user_feedback = fb\<rparr>"
        from trackOutcome_posts [OF ok res' sc Inr, of net] s1
        have "sent (snd (trackOutcome net now outcome options c)) = sent c @ [eventPost ?ed]"
          by simp
        moreover have "ev_outcome ?ed = outcome" by simp
        moreover have "ev_user_feedback ?ed = opt_userFeedback options"
          using checkFeedback_value [OF Inr] by simp
        ultimately show ?thesis by blast
      qed
    qed
  qed
qed

text \<open>
  Claim C10. \<open>trackFeedback(feedback, options)\<close> is \<open>trackOutcome('success', options)\<close>
  with \<open>userFeedback\<close> set to \<open>feedback\<close>; if it posts an event at all, the event records
  the outcome \<open>success\<close> and that feedback, so it never records a failure.
\<close>

theorem trackFeedback_records_success:
  "trackFeedback net now feedback options c
     = trackOutcome net now ''success'' (options\<lparr>opt_userFeedback := feedback\<rparr>) c
   \<and> (sent (snd (trackFeedback net now feedback options c)) = sent c
      \<or> (\<exists>ed. sent (snd (trackFeedback net now feedback options c)) = sent c @ [eventPost ed]
             \<and> ev_outcome ed = ''success''
             \<and> ev_user_feedback ed = feedback))"
  using trackOutcome_sent_cases [of net now "''success''"
      "options\<lparr>opt_userFeedback := feedback\<rparr>" c]
  by (simp add: trackFeedback_def)

theorem trackFeedback_records_success_witness:
  "sent (snd (trackFeedback eventAccepted 5 (Some ''negative'')
           (trackingOptions (Some ''exp1'') (Some ''user1'') None) userCachedClient))
   = [eventPost \<lparr>ev_assignment_id = ''assign-user'', ev_outcome = ''success'',
                 ev_score = None, ev_user_feedback = Some ''negative''\<rparr>]"
  using trackFeedback_records_success [of eventAccepted 5 "Some ''negative''"
      "trackingOptions (Some ''exp1'') (Some ''user1'') None" userCachedClient]
  by (simp add: example_defs trackOutcome_def resolveAssignmentId_def findCachedAssignment_def
      checkScore_def checkFeedback_def makeRequest_def
      truthy_def idString_def get_def store_def generateKey_def orNull_def)

section \<open>Properties of the random fetch\<close>

text \<open>
  Claim C4. \<open>getRandomPrompt\<close> neither reads nor writes the assignment cache: whatever
  the transport answers, the cache after the call is the cache before it, and the result
  does not depend on the cache; so a triple that had no entry before the call has none
  after it, and a \<open>get\<close> for it returns \<open>null\<close>.
\<close>

theorem getRandomPrompt_cache_untouched:
  "assignmentCache (snd (getRandomPrompt net experimentId c)) = assignmentCache c
   \<and> fst (getRandomPrompt net experimentId (c\<lparr>assignmentCache := other\<rparr>))
       = fst (getRandomPrompt net experimentId c)
   \<and> (cache (assignmentCache c) (generateKey experimentId userId sessionId) = None \<longrightarrow>
        fst (get (assignmentCache (snd (getRandomPrompt net experimentId c))) now
               experimentId userId sessionId) = None)"
proof -
  let ?req = "promptPost experimentId \<lparr>split_type = ''random'', user_id = None, session_id = None\<rparr>"
  have m: "snd (makeRequest net ?req k) = k\<lparr>sent := sent k @ [?req]\<rparr>" for k
    by (rule makeRequest_client)
  have f: "fst (makeRequest net ?req (c\<lparr>assignmentCache := other\<rparr>)) = fst (makeRequest net ?req c)"
    by (auto simp: makeRequest_def Let_def split: transport.splits)
  have 1: "assignmentCache (snd (getRandomPrompt net experimentId c)) = assignmentCache c"
    using m [of c]
    by (cases "makeRequest net ?req c")
       (auto simp: getRandomPrompt_def Let_def split: sum.splits option.splits)
  have 2: "fst (getRandomPrompt net experimentId (c\<lparr>assignmentCache := other\<rparr>))
       = fst (getRandomPrompt net experimentId c)"
    using f
    by (cases "makeRequest net ?req c"; cases "makeRequest net ?req (c\<lparr>assignmentCache := other\<rparr>)")
       (auto simp: getRandomPrompt_def Let_def split: sum.splits option.splits)
  show ?thesis
    using 1 2 by (simp add: get_def)
qed

theorem getRandomPrompt_cache_untouched_witness:
  "cache (assignmentCache freshClient) (generateKey ''exp-random'' None None) = None
   \<and> fst (getRandomPrompt promptGranted ''exp-random'' freshClient) = Inr userAssignment
   \<and> assignmentCache (snd (getRandomPrompt promptGranted ''exp-random'' freshClient))
       = assignmentCache freshClient
   \<and> fst (get (assignmentCache (snd (getRandomPrompt promptGranted ''exp-random'' freshClient)))
            5 ''exp-random'' None None) = None"
  using getRandomPrompt_cache_untouched [of promptGranted "''exp-random''" freshClient
      "newAssignmentCache 5000" None None 5]
  by (simp add: example_defs getRandomPrompt_def makeRequest_def promptPost_def)

section \<open>Properties of the events query\<close>

lemma validateFilters_kind:
  "validateFilters parseDate e f = Some err \<Longrightarrow> \<exists>m. err = ValidationError m"
  by (auto simp: validateFilters_def Let_def split: if_splits)

lemma badPage_rejected:
  "badPage v \<Longrightarrow> notNumberOr (\<lambda>p. js_lt p 1) (orDefault v 1)"
proof (cases v)
  case (JNumber x)
  then show "badPage v \<Longrightarrow> ?thesis"
    by (cases x) (auto simp: badPage_def orDefault_def notNumberOr_def)
qed (auto simp: badPage_def orDefault_def notNumberOr_def)

lemma badLimit_rejected:
  "badLimit v \<Longrightarrow> notNumberOr (\<lambda>l. js_lt l 1 \<or> js_gt l 500) (orDefault v 50)"
proof (cases v)
  case (JNumber x)
  then show "badLimit v \<Longrightarrow> ?thesis"
    by (cases x) (auto simp: badLimit_def orDefault_def notNumberOr_def)
qed (auto simp: badLimit_def orDefault_def notNumberOr_def)

lemma page_accepted:
  "\<not> badPage v \<Longrightarrow> \<not> notNumberOr (\<lambda>p. js_lt p 1) (orDefault v 1)"
proof (cases v)
  case (JNumber x)
  then show "\<not> badPage v \<Longrightarrow> ?thesis"
    by (cases x) (auto simp: badPage_def orDefault_def notNumberOr_def)
qed (auto simp: badPage_def orDefault_def notNumberOr_def)

lemma validateFilters_page:
  "badPage (flt_page f) \<Longrightarrow> validateFilters parseDate e f \<noteq> None"
  using badPage_rejected [of "flt_page f"]
  by (simp add: validateFilters_def Let_def)

lemma validateFilters_limit:
  "badLimit (flt_limit f) \<Longrightarrow> validateFilters parseDate e f \<noteq> None"
  using badLimit_rejected [of "flt_limit f"]
  by (simp add: validateFilters_def Let_def)

lemma validateFilters_page_message:
  "e \<noteq> [] \<Longrightarrow> badPage (flt_page f) \<Longrightarrow>
   validateFilters parseDate e f = Some (ValidationError ''page must be a positive number'')"
  using badPage_rejected [of "flt_page f"]
  by (simp add: validateFilters_def Let_def)

lemma validateFilters_limit_message:
  "e \<noteq> [] \<Longrightarrow> \<not> badPage (flt_page f) \<Longrightarrow> badLimit (flt_limit f) \<Longrightarrow>
   validateFilters parseDate e f
     = Some (ValidationError ''limit must be a number between 1 and 500'')"
  using badLimit_rejected [of "flt_limit f"] page_accepted [of "flt_page f"]
  by (simp add: validateFilters_def Let_def)

lemma validateFilters_in_range:
  "e \<noteq> [] \<Longrightarrow> 1 \<le> p \<Longrightarrow> 1 \<le> l \<Longrightarrow> l \<le> 500 \<Longrightarrow>
   validateFilters parseDate e
     (noFilters\<lparr>flt_page := JNumber (Finite p), flt_limit := JNumber (Finite l)\<rparr>) = None"
  by (simp add: validateFilters_def noFilters_def orDefault_def notNumberOr_def truthy_def)

text \<open>
  \<open>NaN\<close> passes both pagination checks; the statements below do not count it among the
  rejected values.
\<close>

lemma validateFilters_NaN:
  "e \<noteq> [] \<Longrightarrow>
   validateFilters parseDate e (noFilters\<lparr>flt_page := JNumber NaN, flt_limit := JNumber NaN\<rparr>)
     = None"
  by (simp add: validateFilters_def noFilters_def orDefault_def notNumberOr_def truthy_def)

lemma getExperimentEvents_invalid:
  "validateFilters parseDate e f = Some err \<Longrightarrow>
   getExperimentEvents net parseDate e f c = (Inl err, c)"
  by (simp add: getExperimentEvents_def)

lemma getExperimentEvents_sent:
  "validateFilters parseDate e f = None \<Longrightarrow>
   sent (snd (getExperimentEvents net parseDate e f c))
     = sent c @ [eventsGet e f (orDefault (flt_page f) 1) (orDefault (flt_limit f) 50)]"
  using makeRequest_client [of net "eventsGet e f (orDefault (flt_page f) 1) (orDefault (flt_limit f) 50)" c]
  by (cases "makeRequest net (eventsGet e f (orDefault (flt_page f) 1) (orDefault (flt_limit f) 50)) c")
     (auto simp: getExperimentEvents_def Let_def split: sum.splits)

text \<open>
  Claim C7 fails on the code. The start date \<open>2024-01-15T10:00:00\<close> has a time component
  and no zone or offset marker; the hyphens of its date part satisfy the test
  \<open>includes('-')\<close> that was meant to find a negative offset, so \<open>_isValidISODate\<close> accepts
  it, the filters pass validation and the request is sent.
\<close>

theorem isValidISODate_accepts_missing_zone:
  assumes "parseDate ''2024-01-15T10:00:00'' = Some t"
  shows "isValidISODate parseDate ''2024-01-15T10:00:00''
     \<and> validateFilters parseDate ''exp-123''
          (noFilters\<lparr>flt_startDate := Some ''2024-01-15T10:00:00''\<rparr>) = None
     \<and> sent (snd (getExperimentEvents net parseDate ''exp-123''
                    (noFilters\<lparr>flt_startDate := Some ''2024-01-15T10:00:00''\<rparr>) c))
         = sent c @ [eventsGet ''exp-123''
                       (noFilters\<lparr>flt_startDate := Some ''2024-01-15T10:00:00''\<rparr>)
                       (JNumber (Finite 1)) (JNumber (Finite 50))]"
proof -
  let ?f = "noFilters\<lparr>flt_startDate := Some ''2024-01-15T10:00:00''\<rparr>"
  have v: "isValidISODate parseDate ''2024-01-15T10:00:00''"
    using assms by (simp add: isValidISODate_def)
  then have n: "validateFilters parseDate ''exp-123'' ?f = None"
    by (simp add: validateFilters_def noFilters_def orDefault_def notNumberOr_def
        truthy_def idString_def)
  from getExperimentEvents_sent [OF n, of net c] v n show ?thesis
    by (simp add: noFilters_def orDefault_def)
qed

theorem isValidISODate_accepts_missing_zone_witness:
  "exampleParser ''2024-01-15T10:00:00'' = Some 1705312800000
   \<and> CHR ''Z'' \<notin> set ''2024-01-15T10:00:00'' \<and> CHR ''+'' \<notin> set ''2024-01-15T10:00:00''
   \<and> isValidISODate exampleParser ''2024-01-15T10:00:00''
   \<and> validateFilters exampleParser ''exp-123''
        (noFilters\<lparr>flt_startDate := Some ''2024-01-15T10:00:00''\<rparr>) = None
   \<and> sent (snd (getExperimentEvents noEvents exampleParser ''exp-123''
                  (noFilters\<lparr>flt_startDate := Some ''2024-01-15T10:00:00''\<rparr>) freshClient))
       = [eventsGet ''exp-123'' (noFilters\<lparr>flt_startDate := Some ''2024-01-15T10:00:00''\<rparr>)
            (JNumber (Finite 1)) (JNumber (Finite 50))]"
  using isValidISODate_accepts_missing_zone [of exampleParser 1705312800000 noEvents freshClient]
  by (simp add: exampleParser_def freshClient_def)

text \<open>
  Claim C8, as amended. \<open>getExperimentEvents\<close> raises \<open>ValidationError\<close>, before any
  request, for every \<open>page\<close> that is present and is either not of type number or a number
  below 1, and for every \<open>limit\<close> that is present and is either not of type number or a
  number below 1 or above 500; a finite number in range is accepted whether or not it is
  an integer. When the filters are valid, the request carries \<open>page\<close> and \<open>limit\<close>, with
  1 and 50 in place of an omitted one. The statement is silent on \<open>NaN\<close>.
\<close>

theorem getExperimentEvents_pagination:
  "(badPage (flt_page f) \<or> badLimit (flt_limit f) \<longrightarrow>
      (\<exists>m. getExperimentEvents net parseDate e f c = (Inl (ValidationError m), c)))
   \<and> (e \<noteq> [] \<and> badPage (flt_page f) \<longrightarrow>
        getExperimentEvents net parseDate e f c
          = (Inl (ValidationError ''page must be a positive number''), c))
   \<and> (e \<noteq> [] \<and> \<not> badPage (flt_page f) \<and> badLimit (flt_limit f) \<longrightarrow>
        getExperimentEvents net parseDate e f c
          = (Inl (ValidationError ''limit must be a number between 1 and 500''), c))
   \<and> (validateFilters parseDate e f = None \<longrightarrow>
        sent (snd (getExperimentEvents net parseDate e f c))
          = sent c @ [eventsGet e f
                        (if flt_page f = JUndefined then JNumber (Finite 1) else flt_page f)
                        (if flt_limit f = JUndefined then JNumber (Finite 50) else flt_limit f)])
   \<and> (e \<noteq> [] \<and> 1 \<le> p \<and> 1 \<le> l \<and> l \<le> 500 \<longrightarrow>
        sent (snd (getExperimentEvents net parseDate e
                     (noFilters\<lparr>flt_page := JNumber (Finite p), flt_limit := JNumber (Finite l)\<rparr>)
                     c))
          = sent c @ [eventsGet e
                        (noFilters\<lparr>flt_page := JNumber (Finite p), flt_limit := JNumber (Finite l)\<rparr>)
                        (JNumber (Finite p)) (JNumber (Finite l))])"
proof -
  have a: "\<exists>m. getExperimentEvents net parseDate e f c = (Inl (ValidationError m), c)"
    if "badPage (flt_page f) \<or> badLimit (flt_limit f)"
  proof -
    from that validateFilters_page [of f parseDate e] validateFilters_limit [of f parseDate e]
    obtain err where "validateFilters parseDate e f = Some err" by auto
    with validateFilters_kind [OF this] getExperimentEvents_invalid [OF this, of net c]
    show ?thesis by auto
  qed
  have b: "getExperimentEvents net parseDate e f c
          = (Inl (ValidationError ''page must be a positive number''), c)"
    if "e \<noteq> []" "badPage (flt_page f)"
    using getExperimentEvents_invalid [OF validateFilters_page_message [OF that]] .
  have c: "getExperimentEvents net parseDate e f c
          = (Inl (ValidationError ''limit must be a number between 1 and 500''), c)"
    if "e \<noteq> []" "\<not> badPage (flt_page f)" "badLimit (flt_limit f)"
    using getExperimentEvents_invalid [OF validateFilters_limit_message [OF that]] .
  have d: "sent (snd (getExperimentEvents net parseDate e f c))
          = sent c @ [eventsGet e f
                        (if flt_page f = JUndefined then JNumber (Finite 1) else flt_page f)
                        (if flt_limit f = JUndefined then JNumber (Finite 50) else flt_limit f)]"
    if "validateFilters parseDate e f = None"
    using getExperimentEvents_sent [OF that, of net c]
    by (cases "flt_page f"; cases "flt_limit f") (simp_all add: orDefault_def)
  have r: "sent (snd (getExperimentEvents net parseDate e
                     (noFilters\<lparr>flt_page := JNumber (Finite p), flt_limit := JNumber (Finite l)\<rparr>)
                     c))
          = sent c @ [eventsGet e
                        (noFilters\<lparr>flt_page := JNumber (Finite p), flt_limit := JNumber (Finite l)\<rparr>)
                        (JNumber (Finite p)) (JNumber (Finite l))]"
    if "e \<noteq> []" "1 \<le> p" "1 \<le> l" "l \<le> 500"
    using getExperimentEvents_sent [OF validateFilters_in_range [OF that, of parseDate], of net c]
    by (simp add: orDefault_def)
  show ?thesis using a b c d r by blast
qed

theorem getExperimentEvents_pagination_witness:
  "badPage (JNumber (Finite 0)) \<and> badLimit (JNumber (Finite 1000))
   \<and> getExperimentEvents noEvents exampleParser ''exp-123'' (noFilters\<lparr>flt_page := JNumber (Finite 0)\<rparr>)
        freshClient
       = (Inl (ValidationError ''page must be a positive number''), freshClient)
   \<and> getExperimentEvents noEvents exampleParser ''exp-123'' (noFilters\<lparr>flt_limit := JNumber (Finite 1000)\<rparr>)
        freshClient
       = (Inl (ValidationError ''limit must be a number between 1 and 500''), freshClient)
   \<and> validateFilters exampleParser ''exp-123'' noFilters = None
   \<and> sent (snd (getExperimentEvents noEvents exampleParser ''exp-123'' noFilters freshClient))
       = [eventsGet ''exp-123'' noFilters (JNumber (Finite 1)) (JNumber (Finite 50))]
   \<and> sent (snd (getExperimentEvents noEvents exampleParser ''exp-123''
                  (noFilters\<lparr>flt_page := JNumber (Finite 2), flt_limit := JNumber (Finite 25)\<rparr>)
                  freshClient))
       = [eventsGet ''exp-123''
            (noFilters\<lparr>flt_page := JNumber (Finite 2), flt_limit := JNumber (Finite 25)\<rparr>)
            (JNumber (Finite 2)) (JNumber (Finite 25))]"
  using getExperimentEvents_pagination [of "noFilters\<lparr>flt_page := JNumber (Finite 0)\<rparr>" noEvents
      exampleParser "''exp-123''" freshClient 2 25]
    getExperimentEvents_pagination [of "noFilters\<lparr>flt_limit := JNumber (Finite 1000)\<rparr>" noEvents
      exampleParser "''exp-123''" freshClient]
    getExperimentEvents_pagination [of noFilters noEvents exampleParser "''exp-123''" freshClient]
  by (simp add: example_defs noFilters_def badPage_def badLimit_def validateFilters_def
      orDefault_def notNumberOr_def truthy_def)

text \<open>
  The claim as stated fails: the page \<open>1.5\<close> and the limit \<open>2.5\<close> are not integers, and
  the call goes to the network and returns.
\<close>

theorem getExperimentEvents_pagination_counterexample:
  "getExperimentEvents noEvents exampleParser ''exp-123''
     (noFilters\<lparr>flt_page := JNumber (Finite (3 / 2)), flt_limit := JNumber (Finite (5 / 2))\<rparr>) freshClient
   = (Inr \<lparr>events = [],
           result_meta = \<lparr>meta_total = JNumber (Finite 0), meta_page = JNumber (Finite (3 / 2)),
                          meta_limit = JNumber (Finite (5 / 2))\<rparr>\<rparr>,
      freshClient\<lparr>sent :=
        [eventsGet ''exp-123''
           (noFilters\<lparr>flt_page := JNumber (Finite (3 / 2)), flt_limit := JNumber (Finite (5 / 2))\<rparr>)
           (JNumber (Finite (3 / 2))) (JNumber (Finite (5 / 2)))]\<rparr>)"
  by (simp add: example_defs noFilters_def getExperimentEvents_def validateFilters_def
      orDefault_def notNumberOr_def truthy_def makeRequest_def Let_def)

section \<open>Malformed envelopes\<close>

lemma prompt_response_malformed:
  assumes "malformed2xx (\<lambda>env. \<not> success env \<or> data env = None) (net req)"
  shows "(case makeRequest net req k of
            (Inl e, c1) \<Rightarrow> (Inl (rethrow msg e), c1)
          | (Inr response, c1) \<Rightarrow>
              (case data response of
                 None \<Rightarrow> (Inl (LaikaServiceError ''Invalid response format'' None), c1)
               | Some d \<Rightarrow>
                   if \<not> success response
                   then (Inl (LaikaServiceError ''Invalid response format'' None), c1)
                   else (Inr d, g response c1 d)))
         = (Inl (LaikaServiceError ''Invalid response format'' None), k\<lparr>sent := sent k @ [req]\<rparr>)"
  using makeRequest_malformed [of "\<lambda>env. \<not> success env \<or> data env = None" net req k] assms
  by (auto split: option.splits)

lemma getPromptForUser_malformed:
  assumes "sent (snd (getPromptForUser net now later e u c)) = sent c @ [req]"
    and "malformed2xx (\<lambda>env. \<not> success env \<or> data env = None) (net req)"
  shows "fst (getPromptForUser net now later e u c)
         = Inl (LaikaServiceError ''Invalid response format'' None)"
proof -
  let ?req = "promptPost e \<lparr>split_type = ''user'', user_id = Some u, session_id = None\<rparr>"
  obtain r ac where g: "get (assignmentCache c) now e (Some u) None = (r, ac)"
    by (cases "get (assignmentCache c) now e (Some u) None")
  show ?thesis
  proof (cases "e = [] \<or> u = [] \<or> r \<noteq> None")
    case True
    then consider "e = []" | "e \<noteq> []" "u = []" | y where "e \<noteq> []" "u \<noteq> []" "r = Some y"
      by (cases r) auto
    then have "sent (snd (getPromptForUser net now later e u c)) = sent c"
    proof cases
      case 1
      then show ?thesis by (simp add: getPromptForUser_def)
    next
      case 2
      then show ?thesis by (simp add: getPromptForUser_def)
    next
      case 3
      with g show ?thesis by (simp add: getPromptForUser_def)
    qed
    with assms(1) show ?thesis by simp
  next
    case False
    have s: "sent (snd (getPromptForUser net now later e u c)) = sent c @ [?req]"
      using False g makeRequest_client [of net ?req "c\<lparr>assignmentCache := ac\<rparr>"]
      by (cases "makeRequest net ?req (c\<lparr>assignmentCache := ac\<rparr>)")
         (auto simp: getPromptForUser_def Let_def split: sum.splits option.splits)
    with assms(1) have "req = ?req" by simp
    with assms(2) prompt_response_malformed [of net ?req] False g show ?thesis
      by (simp add: getPromptForUser_def Let_def)
  qed
qed

lemma getPromptForSession_malformed:
  assumes "sent (snd (getPromptForSession net now later e u c)) = sent c @ [req]"
    and "malformed2xx (\<lambda>env. \<not> success env \<or> data env = None) (net req)"
  shows "fst (getPromptForSession net now later e u c)
         = Inl (LaikaServiceError ''Invalid response format'' None)"
proof -
  let ?req = "promptPost e \<lparr>split_type = ''session'', user_id = None, session_id = Some u\<rparr>"
  obtain r ac where g: "get (assignmentCache c) now e None (Some u) = (r, ac)"
    by (cases "get (assignmentCache c) now e None (Some u)")
  show ?thesis
  proof (cases "e = [] \<or> u = [] \<or> r \<noteq> None")
    case True
    then consider "e = []" | "e \<noteq> []" "u = []" | y where "e \<noteq> []" "u \<noteq> []" "r = Some y"
      by (cases r) auto
    then have "sent (snd (getPromptForSession net now later e u c)) = sent c"
    proof cases
      case 1
      then show ?thesis by (simp add: getPromptForSession_def)
    next
      case 2
      then show ?thesis by (simp add: getPromptForSession_def)
    next
      case 3
      with g show ?thesis by (simp add: getPromptForSession_def)
    qed
    with assms(1) show ?thesis by simp
  next
    case False
    have s: "sent (snd (getPromptForSession net now later e u c)) = sent c @ [?req]"
      using False g makeRequest_client [of net ?req "c\<lparr>assignmentCache := ac\<rparr>"]
      by (cases "makeRequest net ?req (c\<lparr>assignmentCache := ac\<rparr>)")
         (auto simp: getPromptForSession_def Let_def split: sum.splits option.splits)
    with assms(1) have "req = ?req" by simp
    with assms(2) prompt_response_malformed [of net ?req] False g show ?thesis
      by (simp add: getPromptForSession_def Let_def)
  qed
qed

lemma getRandomPrompt_malformed:
  assumes "sent (snd (getRandomPrompt net e c)) = sent c @ [req]"
    and "malformed2xx (\<lambda>env. \<not> success env \<or> data env = None) (net req)"
  shows "fst (getRandomPrompt net e c) = Inl (LaikaServiceError ''Invalid response format'' None)"
proof (cases "e = []")
  case True
  with assms(1) show ?thesis by (simp add: getRandomPrompt_def)
next
  case False
  let ?req = "promptPost e \<lparr>split_type = ''random'', user_id = None, session_id = None\<rparr>"
  have "sent (snd (getRandomPrompt net e c)) = sent c @ [?req]"
    using False makeRequest_client [of net ?req c]
    by (cases "makeRequest net ?req c")
       (auto simp: getRandomPrompt_def Let_def split: sum.splits option.splits)
  with assms(1) have "req = ?req" by simp
  with assms(2) makeRequest_malformed [of "\<lambda>env. \<not> success env \<or> data env = None" net ?req c]
    False
  show ?thesis
    by (auto simp: getRandomPrompt_def Let_def split: option.splits)
qed

lemma trackOutcome_malformed:
  assumes "sent (snd (trackOutcome net now outcome options c)) = sent c @ [req]"
    and "malformed2xx (\<lambda>env. \<not> success env) (net req)"
  shows "fst (trackOutcome net now outcome options c)
         = Inl (LaikaServiceError ''Failed to track event'' None)"
proof (cases "outcome = ''success'' \<or> outcome = ''failure''")
  case False
  with assms(1) show ?thesis by (auto simp: trackOutcome_def)
next
  case ok: True
  obtain r c1 where res: "resolveAssignmentId now options c = (r, c1)"
    by (cases "resolveAssignmentId now options c")
  from resolveAssignmentId_sent [of now options c] res have s1: "sent c1 = sent c" by simp
  show ?thesis
  proof (cases r)
    case (Inl e)
    with res trackOutcome_rejected_early [OF _ ok, of now options c e c1 net] s1 assms(1)
    show ?thesis by simp
  next
    case (Inr aid)
    with res have res': "resolveAssignmentId now options c = (Inr aid, c1)" by simp
    show ?thesis
    proof (cases "checkScore (opt_score options)")
      case (Inl e)
      with ok res' s1 assms(1) show ?thesis by (auto simp: trackOutcome_def)
    next
      case sc: (Inr sc)
      show ?thesis
      proof (cases "checkFeedback (opt_userFeedback options)")
        case (Inl e)
        with ok res' s1 sc assms(1) show ?thesis by (auto simp: trackOutcome_def)
      next
        case (Inr fb)
        let ?req = "eventPost \<lparr>ev_assignment_id = aid, ev_outcome = outcome, ev_score = sc,
                     ev_user_feedback = fb\<rparr>"
        from trackOutcome_posts [OF ok res' sc Inr, of net] s1 assms(1)
        have "req = ?req" by simp
        with assms(2) makeRequest_malformed [of "\<lambda>env. \<not> success env" net ?req c1]
        obtain env where "\<not> success env"
          and "makeRequest net ?req c1 = (Inr env, c1\<lparr>sent := sent c1 @ [?req]\<rparr>)"
          by auto
        with ok res' sc Inr show ?thesis
          by (auto simp: trackOutcome_def Let_def)
      qed
    qed
  qed
qed

lemma getExperimentEvents_malformed:
  assumes "sent (snd (getExperimentEvents net parseDate e f c)) = sent c @ [req]"
    and "malformed2xx (\<lambda>env. \<not> success env) (net req)"
  shows "fst (getExperimentEvents net parseDate e f c)
         = Inl (LaikaServiceError ''Failed to fetch events'' None)"
proof (cases "validateFilters parseDate e f")
  case (Some err)
  with assms(1) show ?thesis by (simp add: getExperimentEvents_def)
next
  case None
  let ?req = "eventsGet e f (orDefault (flt_page f) 1) (orDefault (flt_limit f) 50)"
  from getExperimentEvents_sent [OF None, of net c] assms(1) have "req = ?req" by simp
  with assms(2) makeRequest_malformed [of "\<lambda>env. \<not> success env" net ?req c]
  obtain env where "\<not> success env"
    and "makeRequest net ?req c = (Inr env, c\<lparr>sent := sent c @ [?req]\<rparr>)"
    by auto
  with None show ?thesis
    by (simp add: getExperimentEvents_def Let_def)
qed

text \<open>
  Claim C9. Whenever one of the five operations hands a request to the transport and the
  answer has a status in \<open>[200, 300)\<close> but an envelope that violates the inner contract
  (\<open>success\<close> is not true, or, for the three prompt fetches, \<open>data\<close> is absent), the
  operation fails with \<open>LaikaServiceError\<close>.
\<close>

theorem malformed_envelope_raises_service_error:
  "(sent (snd (getPromptForUser netA now later e u c)) = sent c @ [req]
      \<and> malformed2xx (\<lambda>env. \<not> success env \<or> data env = None) (netA req) \<longrightarrow>
      fst (getPromptForUser netA now later e u c)
        = Inl (LaikaServiceError ''Invalid response format'' None))
   \<and> (sent (snd (getPromptForSession netA now later e s c)) = sent c @ [req]
      \<and> malformed2xx (\<lambda>env. \<not> success env \<or> data env = None) (netA req) \<longrightarrow>
      fst (getPromptForSession netA now later e s c)
        = Inl (LaikaServiceError ''Invalid response format'' None))
   \<and> (sent (snd (getRandomPrompt netA e c)) = sent c @ [req]
      \<and> malformed2xx (\<lambda>env. \<not> success env \<or> data env = None) (netA req) \<longrightarrow>
      fst (getRandomPrompt netA e c) = Inl (LaikaServiceError ''Invalid response format'' None))
   \<and> (sent (snd (trackOutcome netE now outcome options c)) = sent c @ [req]
      \<and> malformed2xx (\<lambda>env. \<not> success env) (netE req) \<longrightarrow>
      fst (trackOutcome netE now outcome options c)
        = Inl (LaikaServiceError ''Failed to track event'' None))
   \<and> (sent (snd (getExperimentEvents netL parseDate e f c)) = sent c @ [req]
      \<and> malformed2xx (\<lambda>env. \<not> success env) (netL req) \<longrightarrow>
      fst (getExperimentEvents netL parseDate e f c)
        = Inl (LaikaServiceError ''Failed to fetch events'' None))"
  using getPromptForUser_malformed [of netA now later e u c req]
    getPromptForSession_malformed [of netA now later e s c req]
    getRandomPrompt_malformed [of netA e c req]
    trackOutcome_malformed [of netE now outcome options c req]
    getExperimentEvents_malformed [of netL parseDate e f c req]
  by blast

theorem malformed_envelope_raises_service_error_witness:
  "malformed2xx (\<lambda>env. \<not> success env \<or> data env = None)
     (promptWithoutData (promptPost ''exp1''
        \<lparr>split_type = ''user'', user_id = Some ''user1'', session_id = None\<rparr>))
   \<and> sent (snd (getPromptForUser promptWithoutData 5 6 ''exp1'' ''user1'' freshClient))
       = sent freshClient @ [promptPost ''exp1''
           \<lparr>split_type = ''user'', user_id = Some ''user1'', session_id = None\<rparr>]
   \<and> fst (getPromptForUser promptWithoutData 5 6 ''exp1'' ''user1'' freshClient)
       = Inl (LaikaServiceError ''Invalid response format'' None)
   \<and> fst (getPromptForSession unsuccessful 5 6 ''exp1'' ''session1'' freshClient)
       = Inl (LaikaServiceError ''Invalid response format'' None)
   \<and> fst (getRandomPrompt promptWithoutData ''exp1'' freshClient)
       = Inl (LaikaServiceError ''Invalid response format'' None)
   \<and> fst (trackOutcome unsuccessful 5 ''success''
            (trackingOptions (Some ''exp1'') (Some ''user1'') None) userCachedClient)
       = Inl (LaikaServiceError ''Failed to track event'' None)
   \<and> fst (getExperimentEvents unsuccessful exampleParser ''exp1'' noFilters freshClient)
       = Inl (LaikaServiceError ''Failed to fetch events'' None)"
  using malformed_envelope_raises_service_error [of promptWithoutData 5 6 "''exp1''" "''user1''"
      freshClient
      "promptPost ''exp1'' \<lparr>split_type = ''user'', user_id = Some ''user1'', session_id = None\<rparr>"]
  by (simp add: example_defs malformed2xx_def getPromptForUser_def getPromptForSession_def
      getRandomPrompt_def trackOutcome_def resolveAssignmentId_def findCachedAssignment_def
      getExperimentEvents_def validateFilters_def noFilters_def orDefault_def notNumberOr_def
      checkScore_def checkFeedback_def makeRequest_def promptPost_def
      truthy_def idString_def get_def store_def generateKey_def orNull_def)

end
